theory Spec2Isabelle
  imports Complex_Main
begin

section \<open>JavaScript numbers\<close>

text \<open>
  A TypeScript \<open>number\<close> is an IEEE double: a finite value, one of the two infinities, or
  NaN. Finite values are embedded as reals (every double is one); the operations used by
  the event queries are comparisons and truncation, which are exact, and \<open>mes - 1\<close>,
  which is exact for \<open>1 \<le> mes \<le> 12\<close>.
\<close>

datatype number = NaN | Finite real | Infinity | NegInfinity

fun isNaN :: "number \<Rightarrow> bool" where
  "isNaN NaN = True"
| "isNaN _ = False"

text \<open>The relational operator \<open><\<close>: false as soon as one operand is NaN.\<close>

fun lt :: "number \<Rightarrow> number \<Rightarrow> bool" where
  "lt (Finite a) (Finite b) = (a < b)"
| "lt NaN _ = False"
| "lt _ NaN = False"
| "lt _ NegInfinity = False"
| "lt Infinity _ = False"
| "lt NegInfinity _ = True"
| "lt (Finite a) Infinity = True"

definition gt :: "number \<Rightarrow> number \<Rightarrow> bool" where
  "gt a b = lt b a"

text \<open>Truthiness of a number, as \<open>||\<close> and \<open>?:\<close> test it: 0 and NaN are falsy.\<close>

fun truthy :: "number \<Rightarrow> bool" where
  "truthy NaN = False"
| "truthy (Finite r) = (r \<noteq> 0)"
| "truthy _ = True"

text \<open>\<open>n - 1\<close>.\<close>

fun minus1 :: "number \<Rightarrow> number" where
  "minus1 (Finite r) = Finite (r - 1)"
| "minus1 n = n"

text \<open>Truncation towards zero of a finite value (ToIntegerOrInfinity).\<close>

definition ToInteger :: "real \<Rightarrow> int" where
  "ToInteger r = (if 0 \<le> r then \<lfloor>r\<rfloor> else \<lceil>r\<rceil>)"

section \<open>The Date object\<close>

text \<open>
  A Date holds a time value, milliseconds since 1970-01-01T00:00:00Z, or is invalid (its
  time value is NaN). The constructor \<open>new Date(year, month, day, ...)\<close> and
  \<open>setHours\<close> read their arguments in local time, by the rules of the host's time zone:
  \<open>LocalTZA h t True\<close> is the offset from UTC in force at the instant \<open>t\<close>, and
  \<open>LocalTZA h t False\<close> the offset by which the host reads the local time \<open>t\<close> (for a
  local time that a change of offset skips or repeats, the offset before the change).
  \<open>new Date()\<close> reads the clock: \<open>currentFullYear\<close> is what
  \<open>new Date().getFullYear()\<close> returns on the host.
\<close>

datatype Date = InvalidDate | TimeValue int

record host =
  LocalTZA :: "int \<Rightarrow> bool \<Rightarrow> int"
  currentFullYear :: int

definition msPerDay :: int where
  "msPerDay = 86400000"

definition DaysInYear :: "int \<Rightarrow> int" where
  "DaysInYear y =
     (if y mod 4 \<noteq> 0 then 365
      else if y mod 100 \<noteq> 0 then 366
      else if y mod 400 \<noteq> 0 then 365
      else 366)"

definition DayFromYear :: "int \<Rightarrow> int" where
  "DayFromYear y =
     365 * (y - 1970) + (y - 1969) div 4 - (y - 1901) div 100 + (y - 1601) div 400"

definition InLeapYear :: "int \<Rightarrow> int" where
  "InLeapYear y = (if DaysInYear y = 366 then 1 else 0)"

text \<open>
  The day within the year on which month \<open>mn\<close> (0 = January) begins, the table by which
  MonthFromTime is defined.
\<close>

definition MonthStart :: "int \<Rightarrow> int \<Rightarrow> int" where
  "MonthStart y mn =
     (if mn = 0 then 0
      else if mn = 1 then 31
      else if mn = 2 then 59 + InLeapYear y
      else if mn = 3 then 90 + InLeapYear y
      else if mn = 4 then 120 + InLeapYear y
      else if mn = 5 then 151 + InLeapYear y
      else if mn = 6 then 181 + InLeapYear y
      else if mn = 7 then 212 + InLeapYear y
      else if mn = 8 then 243 + InLeapYear y
      else if mn = 9 then 273 + InLeapYear y
      else if mn = 10 then 304 + InLeapYear y
      else 334 + InLeapYear y)"

text \<open>
  MakeDay: the year and the month are truncated, months outside 0..11 carry into the year,
  and the day of the month is an offset from day 1, so day 0 is the last day of the month
  before. The result is NaN (\<open>None\<close>) when an argument is out of range: the engine
  takes years up to \<open>10^6\<close> and months up to \<open>10^7\<close> in magnitude.
\<close>

definition MakeDay :: "real \<Rightarrow> real \<Rightarrow> int \<Rightarrow> int option" where
  "MakeDay year month date =
     (if \<bar>year\<bar> \<le> 1000000 \<and> \<bar>month\<bar> \<le> 10000000 then
        (let y = ToInteger year;
             m = ToInteger month;
             ym = y + m div 12;
             mn = m mod 12
         in Some (DayFromYear ym + MonthStart ym mn + date - 1))
      else None)"

definition MakeTime :: "int \<Rightarrow> int \<Rightarrow> int \<Rightarrow> int \<Rightarrow> int" where
  "MakeTime hour minute sec ms = hour * 3600000 + minute * 60000 + sec * 1000 + ms"

definition MakeDate :: "int \<Rightarrow> int \<Rightarrow> int" where
  "MakeDate day time = day * msPerDay + time"

definition TimeClip :: "int \<Rightarrow> Date" where
  "TimeClip t = (if \<bar>t\<bar> > 8640000000000000 then InvalidDate else TimeValue t)"

definition UTC :: "host \<Rightarrow> int \<Rightarrow> int" where
  "UTC h t = t - LocalTZA h t False"

definition LocalTime :: "host \<Rightarrow> int \<Rightarrow> int" where
  "LocalTime h t = t + LocalTZA h t True"

definition Day :: "int \<Rightarrow> int" where
  "Day t = t div msPerDay"

text \<open>A year that truncates to 0..99 means 1900 + year.\<close>

definition MakeFullYear :: "real \<Rightarrow> real" where
  "MakeFullYear y =
     (let truncated = ToInteger y
      in if 0 \<le> truncated \<and> truncated \<le> 99 then of_int (1900 + truncated) else y)"

text \<open>
  \<open>new Date(year, month, date, hours, minutes, seconds, ms)\<close>. The source passes numbers
  for the year and the month and integer literals for the rest.
\<close>

definition newDate :: "host \<Rightarrow> number \<Rightarrow> number \<Rightarrow> int \<Rightarrow> int \<Rightarrow> int \<Rightarrow> int \<Rightarrow> int \<Rightarrow> Date" where
  "newDate h year month date hours minutes seconds ms =
     (case year of
        Finite y \<Rightarrow>
          (case month of
             Finite m \<Rightarrow>
               (case MakeDay (MakeFullYear y) m date of
                  None \<Rightarrow> InvalidDate
                | Some day \<Rightarrow>
                    TimeClip (UTC h (MakeDate day (MakeTime hours minutes seconds ms))))
           | _ \<Rightarrow> InvalidDate)
      | _ \<Rightarrow> InvalidDate)"

definition setHours :: "host \<Rightarrow> Date \<Rightarrow> int \<Rightarrow> int \<Rightarrow> int \<Rightarrow> int \<Rightarrow> Date" where
  "setHours h d hour minute sec ms =
     (case d of
        InvalidDate \<Rightarrow> InvalidDate
      | TimeValue t \<Rightarrow>
          TimeClip (UTC h (MakeDate (Day (LocalTime h t)) (MakeTime hour minute sec ms))))"

text \<open>\<open>a <= b\<close> and \<open>a >= b\<close> on Dates compare the time values; NaN compares false.\<close>

fun date_le :: "Date \<Rightarrow> Date \<Rightarrow> bool" where
  "date_le (TimeValue a) (TimeValue b) = (a \<le> b)"
| "date_le _ _ = False"

definition date_ge :: "Date \<Rightarrow> Date \<Rightarrow> bool" where
  "date_ge a b = date_le b a"

section \<open>Month and year boundaries\<close>

text \<open>
  Names that the source writes with an n with tilde are written with \<open>ni\<close> here
  (\<open>anio\<close>, \<open>buscarEventosPorAnio\<close>).

  The three statements that buscarEventos (lines 30-35), buscarEventosPorMes (133-138)
  and contarEventosPorMes (411-414) share: the year defaults to the current one when it
  is absent or falsy, the month starts on day 1 of month index \<open>mes - 1\<close> and ends on day 0
  of month index \<open>mes\<close>, moved to 23:59:59.999.
\<close>

definition anioConsulta :: "host \<Rightarrow> number option \<Rightarrow> number" where
  "anioConsulta h anio =
     (case anio of
        None \<Rightarrow> Finite (of_int (currentFullYear h))
      | Some a \<Rightarrow> (if truthy a then a else Finite (of_int (currentFullYear h))))"

definition inicioMes :: "host \<Rightarrow> number option \<Rightarrow> number \<Rightarrow> Date" where
  "inicioMes h anio mes = newDate h (anioConsulta h anio) (minus1 mes) 1 0 0 0 0"

definition finMes :: "host \<Rightarrow> number option \<Rightarrow> number \<Rightarrow> Date" where
  "finMes h anio mes = setHours h (newDate h (anioConsulta h anio) mes 0 0 0 0 0) 23 59 59 999"

text \<open>buscarEventosPorAnio, lines 244-245.\<close>

definition inicioAnio :: "host \<Rightarrow> number \<Rightarrow> Date" where
  "inicioAnio h anio = newDate h anio (Finite 0) 1 0 0 0 0"

definition finAnio :: "host \<Rightarrow> number \<Rightarrow> Date" where
  "finAnio h anio = newDate h anio (Finite 11) 31 23 59 59 999"

section \<open>The civil calendar, counted day by day\<close>









section \<open>Events, filters and database operations\<close>

text \<open>
  The identifier of an event is a string in the unified search (the text of the
  database's \<open>_id\<close>) and a number in the lookup by identifier.
\<close>

datatype ObjectId = ObjectId string

fun toString :: "ObjectId \<Rightarrow> string" where
  "toString (ObjectId hex) = hex"

datatype id_evento = IdString string | IdNumber number

record T_Eventos =
  Id_Evento :: id_evento
  Nombre :: string
  Fecha_Inicio :: Date
  Fecha_Conclusion :: Date

text \<open>
  An element of the \<open>any[]\<close> that the find of buscarEventos yields: \<open>raw_id\<close> is
  \<open>evento._id\<close>, \<open>None\<close> when the property is undefined.
\<close>

record evento_raw =
  raw_id :: "ObjectId option"
  raw_Nombre :: string
  raw_Fecha_Inicio :: Date
  raw_Fecha_Conclusion :: Date

text \<open>
  The filter documents the queries build: \<open>{}\<close>, \<open>{$or: [...]}\<close>, \<open>{$and: [...]}\<close>,
  \<open>{campo: {$gte: d}}\<close>, \<open>{campo: {$lte: d}}\<close> and \<open>{Id_Evento: n}\<close>.
\<close>

datatype campo = Campo_Fecha_Inicio | Campo_Fecha_Conclusion

datatype filtro =
    Vacio
  | Or "filtro list"
  | And "filtro list"
  | Gte campo Date
  | Lte campo Date
  | Id_Evento_igual number

text \<open>
  The three-clause filter, written out with the same shape in buscarEventos (lines 37-61),
  buscarEventosPorMes (141-165), buscarEventosPorAnio (252-275), buscarEventosPorRango
  (315-339) and contarEventosPorMes (421-442).
\<close>

definition filtroTraslape :: "Date \<Rightarrow> Date \<Rightarrow> filtro" where
  "filtroTraslape inicio fin =
     Or [And [Gte Campo_Fecha_Inicio inicio, Lte Campo_Fecha_Inicio fin],
         And [Gte Campo_Fecha_Conclusion inicio, Lte Campo_Fecha_Conclusion fin],
         And [Lte Campo_Fecha_Inicio inicio, Gte Campo_Fecha_Conclusion fin]]"

datatype operacion = CountDocuments | Find | FindOne

record opciones =
  opt_sort :: "(campo \<times> int) option"
  opt_skip :: "number option"
  opt_limit :: "number option"
  opt_projection :: "(string \<times> nat) list"

record mongo_operation =
  operation :: operacion
  collection :: string
  filter_doc :: filtro
  options :: "opciones option"

text \<open>
  Modelled from the spec: the instance selector RDP03 and the roles of RolesSistema are
  declared outside the sources at hand. An instance is an opaque value; the two roles are
  the ones the queries name.
\<close>

typedecl RDP03

datatype RolesSistema = Responsable | Directivo

text \<open>What a \<open>throw\<close> carries.\<close>

datatype error = Error string | TypeError string

text \<open>
  executeMongoOperation is defined outside the sources at hand, so the queries take it as
  a parameter: one function for each type at which the generic is used,
  \<open><number>\<close>, \<open><any[]>\<close>, \<open><T_Eventos[]>\<close> and \<open><T_Eventos>\<close>. \<open>Inl\<close> is a throw,
  \<open>Inr None\<close> a null or undefined result.
\<close>

record connector =
  execute_number :: "RDP03 option \<Rightarrow> mongo_operation \<Rightarrow> RolesSistema \<Rightarrow> error + number option"
  execute_any :: "RDP03 option \<Rightarrow> mongo_operation \<Rightarrow> RolesSistema \<Rightarrow> error + evento_raw list option"
  execute_eventos :: "RDP03 option \<Rightarrow> mongo_operation \<Rightarrow> RolesSistema \<Rightarrow> error + T_Eventos list option"
  execute_evento :: "RDP03 option \<Rightarrow> mongo_operation \<Rightarrow> RolesSistema \<Rightarrow> error + T_Eventos option"

text \<open>
  What a function does besides returning: the lines written to the console (the message;
  a value printed after it is kept for \<open>console.error\<close>, which prints the error) and the
  database operations handed to the executor, in order.
\<close>

datatype effect =
    ConsoleLog string
  | ConsoleError string error
  | Executed "RDP03 option" mongo_operation RolesSistema

section \<open>The queries\<close>

record BuscarEventosParams =
  mes :: "number option"
  anio :: "number option"
  limit :: number
  offset :: number

record eventos_total =
  eventos :: "T_Eventos list"
  total :: number

text \<open>\<open>total || 0\<close> on a count that may be null.\<close>

definition o_cero :: "number option \<Rightarrow> number" where
  "o_cero t = (case t of None \<Rightarrow> Finite 0 | Some n \<Rightarrow> (if truthy n then n else Finite 0))"

text \<open>\<open>eventos || []\<close>.\<close>

definition o_vacio :: "'a list option \<Rightarrow> 'a list" where
  "o_vacio r = (case r of None \<Rightarrow> [] | Some xs \<Rightarrow> xs)"

text \<open>
  The \<open>map\<close> of lines 99-104. \<open>evento._id.toString()\<close> throws a TypeError on an element
  without \<open>_id\<close>.
\<close>

fun transformar :: "evento_raw list \<Rightarrow> error + T_Eventos list" where
  "transformar [] = Inr []"
| "transformar (evento # resto) =
     (case raw_id evento of
        None \<Rightarrow> Inl (TypeError ''Cannot read properties of undefined (reading 'toString')'')
      | Some oid \<Rightarrow>
          (case transformar resto of
             Inl e \<Rightarrow> Inl e
           | Inr es \<Rightarrow>
               Inr (\<lparr>Id_Evento = IdString (toString oid),
                     Nombre = raw_Nombre evento,
                     Fecha_Inicio = raw_Fecha_Inicio evento,
                     Fecha_Conclusion = raw_Fecha_Conclusion evento\<rparr> # es)))"

text \<open>The pieces of buscarEventos: its filter and the two operations it issues.\<close>

definition filtroComun :: "host \<Rightarrow> number option \<Rightarrow> number option \<Rightarrow> filtro" where
  "filtroComun h mes_p anio_p =
     (case mes_p of
        None \<Rightarrow> Vacio
      | Some m \<Rightarrow> filtroTraslape (inicioMes h anio_p m) (finMes h anio_p m))"

definition operacion_conteo :: "host \<Rightarrow> BuscarEventosParams \<Rightarrow> mongo_operation" where
  "operacion_conteo h params =
     \<lparr>operation = CountDocuments,
      collection = ''T_Eventos'',
      filter_doc = filtroComun h (mes params) (anio params),
      options = None\<rparr>"

definition operacion_busqueda :: "host \<Rightarrow> BuscarEventosParams \<Rightarrow> mongo_operation" where
  "operacion_busqueda h params =
     \<lparr>operation = Find,
      collection = ''T_Eventos'',
      filter_doc = filtroComun h (mes params) (anio params),
      options = Some \<lparr>opt_sort = Some (Campo_Fecha_Inicio, 1),
                      opt_skip = Some (offset params),
                      opt_limit = Some (limit params),
                      opt_projection = [(''_id'', 1), (''Nombre'', 1), (''Fecha_Inicio'', 1),
                                        (''Fecha_Conclusion'', 1)]\<rparr>\<rparr>"

definition buscarEventos ::
  "host \<Rightarrow> connector \<Rightarrow> BuscarEventosParams \<Rightarrow> RDP03 option \<Rightarrow> effect list \<times> (error + eventos_total)" where
  "buscarEventos h c params instanciaEnUso =
     (let conteo = operacion_conteo h params;
          busqueda = operacion_busqueda h params
      in case execute_number c instanciaEnUso conteo Responsable of
           Inl e \<Rightarrow>
             ([Executed instanciaEnUso conteo Responsable,
               ConsoleError ''Error buscando eventos:'' e], Inl e)
         | Inr total_raw \<Rightarrow>
             (case execute_any c instanciaEnUso busqueda Responsable of
                Inl e \<Rightarrow>
                  ([Executed instanciaEnUso conteo Responsable,
                    Executed instanciaEnUso busqueda Responsable,
                    ConsoleError ''Error buscando eventos:'' e], Inl e)
              | Inr eventosRaw \<Rightarrow>
                  (case transformar (o_vacio eventosRaw) of
                     Inl e \<Rightarrow>
                       ([Executed instanciaEnUso conteo Responsable,
                         Executed instanciaEnUso busqueda Responsable,
                         ConsoleError ''Error buscando eventos:'' e], Inl e)
                   | Inr evs \<Rightarrow>
                       ([Executed instanciaEnUso conteo Responsable,
                         Executed instanciaEnUso busqueda Responsable],
                        Inr \<lparr>eventos = evs, total = o_cero total_raw\<rparr>))))"

text \<open>The projection the other queries ask for: the native identifier, without \<open>_id\<close>.\<close>

definition proyeccion_nativa :: "(string \<times> nat) list" where
  "proyeccion_nativa = [(''Id_Evento'', 1), (''Nombre'', 1), (''Fecha_Inicio'', 1),
                        (''Fecha_Conclusion'', 1), (''_id'', 0)]"

text \<open>
  buscarEventosPorMes: \<open>limit\<close> and \<open>offset\<close> are optional arguments with the defaults
  100 and 0. Its two operations are the object literals of lines 170-174 and 181-197.
\<close>

definition por_mes_conteo :: "host \<Rightarrow> number \<Rightarrow> number option \<Rightarrow> mongo_operation" where
  "por_mes_conteo h mes_p anio_p =
     \<lparr>operation = CountDocuments,
      collection = ''T_Eventos'',
      filter_doc = filtroTraslape (inicioMes h anio_p mes_p) (finMes h anio_p mes_p),
      options = None\<rparr>"

definition por_mes_busqueda ::
  "host \<Rightarrow> number \<Rightarrow> number option \<Rightarrow> number option \<Rightarrow> number option \<Rightarrow> mongo_operation" where
  "por_mes_busqueda h mes_p anio_p limit_p offset_p =
     \<lparr>operation = Find,
      collection = ''T_Eventos'',
      filter_doc = filtroTraslape (inicioMes h anio_p mes_p) (finMes h anio_p mes_p),
      options = Some \<lparr>opt_sort = Some (Campo_Fecha_Inicio, 1),
                      opt_skip = Some (case offset_p of None \<Rightarrow> Finite 0 | Some k \<Rightarrow> k),
                      opt_limit = Some (case limit_p of None \<Rightarrow> Finite 100 | Some l \<Rightarrow> l),
                      opt_projection = proyeccion_nativa\<rparr>\<rparr>"

definition buscarEventosPorMes ::
  "host \<Rightarrow> connector \<Rightarrow> number \<Rightarrow> number option \<Rightarrow> RDP03 option \<Rightarrow> number option \<Rightarrow> number option
     \<Rightarrow> effect list \<times> (error + eventos_total)" where
  "buscarEventosPorMes h c mes_p anio_p instanciaEnUso limit_p offset_p =
     (let conteo = por_mes_conteo h mes_p anio_p;
          busqueda = por_mes_busqueda h mes_p anio_p limit_p offset_p
      in case execute_number c instanciaEnUso conteo Responsable of
           Inl e \<Rightarrow>
             ([Executed instanciaEnUso conteo Responsable,
               ConsoleError ''Error buscando eventos por mes:'' e], Inl e)
         | Inr total_raw \<Rightarrow>
             (case execute_eventos c instanciaEnUso busqueda Responsable of
                Inl e \<Rightarrow>
                  ([Executed instanciaEnUso conteo Responsable,
                    Executed instanciaEnUso busqueda Responsable,
                    ConsoleError ''Error buscando eventos por mes:'' e], Inl e)
              | Inr evs \<Rightarrow>
                  ([Executed instanciaEnUso conteo Responsable,
                    Executed instanciaEnUso busqueda Responsable],
                   Inr \<lparr>eventos = o_vacio evs, total = o_cero total_raw\<rparr>)))"

text \<open>\<open>new Date(evento.Fecha_Inicio)\<close>: a Date with the time value of its argument.\<close>

definition copiaDate :: "Date \<Rightarrow> Date" where
  "copiaDate d = d"

text \<open>
  verificarConflictoConEventos reads its arguments and returns a new array: the model is a
  function of the two dates and the list, with no effects and no executor.
\<close>

definition verificarConflictoConEventos :: "Date \<Rightarrow> Date \<Rightarrow> T_Eventos list \<Rightarrow> T_Eventos list" where
  "verificarConflictoConEventos fechaInicio fechaFin evs =
     filter (\<lambda>evento.
        (let inicioEvento = copiaDate (Fecha_Inicio evento);
             finEvento = copiaDate (Fecha_Conclusion evento)
         in date_le inicioEvento fechaFin \<and> date_ge finEvento fechaInicio)) evs"

text \<open>
  The same call with what it does to the program's state made explicit: the state holds
  the effects so far and the array passed as \<open>eventos\<close>, which the callee receives by
  reference. \<open>Array.prototype.filter\<close> calls the callback on the elements in order and
  collects those for which it returns true; the callback of lines 223-230 builds two
  Dates and compares them.
\<close>

record estado =
  efectos_previos :: "effect list"
  arreglo :: "T_Eventos list"

fun Array_filter :: "('s \<Rightarrow> 'a \<Rightarrow> 's \<times> bool) \<Rightarrow> 's \<Rightarrow> 'a list \<Rightarrow> 's \<times> 'a list" where
  "Array_filter callback st [] = (st, [])"
| "Array_filter callback st (x # xs) =
     (case callback st x of
        (st1, conservar) \<Rightarrow>
          (case Array_filter callback st1 xs of
             (st2, ys) \<Rightarrow> (st2, if conservar then x # ys else ys)))"

definition hay_traslape :: "Date \<Rightarrow> Date \<Rightarrow> estado \<Rightarrow> T_Eventos \<Rightarrow> estado \<times> bool" where
  "hay_traslape fechaInicio fechaFin st evento =
     (let inicioEvento = copiaDate (Fecha_Inicio evento);
          finEvento = copiaDate (Fecha_Conclusion evento)
      in (st, date_le inicioEvento fechaFin \<and> date_ge finEvento fechaInicio))"

definition verificarConflictoConEventos_en ::
  "Date \<Rightarrow> Date \<Rightarrow> estado \<Rightarrow> estado \<times> T_Eventos list" where
  "verificarConflictoConEventos_en fechaInicio fechaFin st =
     Array_filter (hay_traslape fechaInicio fechaFin) st (arreglo st)"

text \<open>
  The overlap of a stored interval with a candidate interval, as the specification words
  it: stored start at or before the candidate's end and stored end at or after the
  candidate's start. An event with an invalid date overlaps nothing.
\<close>

definition en_conflicto :: "int \<Rightarrow> int \<Rightarrow> T_Eventos \<Rightarrow> bool" where
  "en_conflicto candidateStart candidateEnd evento =
     (case Fecha_Inicio evento of
        InvalidDate \<Rightarrow> False
      | TimeValue storedStart \<Rightarrow>
          (case Fecha_Conclusion evento of
             InvalidDate \<Rightarrow> False
           | TimeValue storedEnd \<Rightarrow>
               storedStart \<le> candidateEnd \<and> storedEnd \<ge> candidateStart))"

definition por_anio_busqueda :: "host \<Rightarrow> number \<Rightarrow> mongo_operation" where
  "por_anio_busqueda h anio_p =
     \<lparr>operation = Find,
      collection = ''T_Eventos'',
      filter_doc = filtroTraslape (inicioAnio h anio_p) (finAnio h anio_p),
      options = Some \<lparr>opt_sort = Some (Campo_Fecha_Inicio, 1), opt_skip = None,
                      opt_limit = None, opt_projection = proyeccion_nativa\<rparr>\<rparr>"

definition buscarEventosPorAnio ::
  "host \<Rightarrow> connector \<Rightarrow> number \<Rightarrow> RDP03 option \<Rightarrow> effect list \<times> (error + T_Eventos list)" where
  "buscarEventosPorAnio h c anio_p instanciaEnUso =
     (let busqueda = por_anio_busqueda h anio_p
      in case execute_eventos c instanciaEnUso busqueda Directivo of
           Inl e \<Rightarrow>
             ([Executed instanciaEnUso busqueda Directivo,
               ConsoleError ''Error buscando eventos por anio:'' e], Inl e)
         | Inr evs \<Rightarrow> ([Executed instanciaEnUso busqueda Directivo], Inr (o_vacio evs)))"

definition por_rango_busqueda :: "Date \<Rightarrow> Date \<Rightarrow> mongo_operation" where
  "por_rango_busqueda fechaInicio fechaFin =
     \<lparr>operation = Find,
      collection = ''T_Eventos'',
      filter_doc = filtroTraslape fechaInicio fechaFin,
      options = Some \<lparr>opt_sort = Some (Campo_Fecha_Inicio, 1), opt_skip = None,
                      opt_limit = None, opt_projection = proyeccion_nativa\<rparr>\<rparr>"

definition buscarEventosPorRango ::
  "connector \<Rightarrow> Date \<Rightarrow> Date \<Rightarrow> RDP03 option \<Rightarrow> effect list \<times> (error + T_Eventos list)" where
  "buscarEventosPorRango c fechaInicio fechaFin instanciaEnUso =
     (let busqueda = por_rango_busqueda fechaInicio fechaFin
      in case execute_eventos c instanciaEnUso busqueda Directivo of
           Inl e \<Rightarrow>
             ([Executed instanciaEnUso busqueda Directivo,
               ConsoleError ''Error buscando eventos por rango:'' e], Inl e)
         | Inr evs \<Rightarrow> ([Executed instanciaEnUso busqueda Directivo], Inr (o_vacio evs)))"

definition por_id_busqueda :: "number \<Rightarrow> mongo_operation" where
  "por_id_busqueda idEvento =
     \<lparr>operation = FindOne,
      collection = ''T_Eventos'',
      filter_doc = Id_Evento_igual idEvento,
      options = Some \<lparr>opt_sort = None, opt_skip = None, opt_limit = None,
                      opt_projection = proyeccion_nativa\<rparr>\<rparr>"

text \<open>buscarEventoPorId returns what the executor yields, null included (line 391).\<close>

definition buscarEventoPorId ::
  "connector \<Rightarrow> number \<Rightarrow> RDP03 option \<Rightarrow> effect list \<times> (error + T_Eventos option)" where
  "buscarEventoPorId c idEvento instanciaEnUso =
     (let busqueda = por_id_busqueda idEvento
      in case execute_evento c instanciaEnUso busqueda Responsable of
           Inl e \<Rightarrow>
             ([Executed instanciaEnUso busqueda Responsable,
               ConsoleError ''Error buscando evento por ID:'' e], Inl e)
         | Inr evento \<Rightarrow> ([Executed instanciaEnUso busqueda Responsable], Inr evento))"

definition contar_mes_conteo :: "host \<Rightarrow> number \<Rightarrow> number option \<Rightarrow> mongo_operation" where
  "contar_mes_conteo h mes_p anio_p =
     \<lparr>operation = CountDocuments,
      collection = ''T_Eventos'',
      filter_doc = filtroTraslape (inicioMes h anio_p mes_p) (finMes h anio_p mes_p),
      options = Some \<lparr>opt_sort = None, opt_skip = None, opt_limit = None,
                      opt_projection = []\<rparr>\<rparr>"

definition contarEventosPorMes ::
  "host \<Rightarrow> connector \<Rightarrow> number \<Rightarrow> number option \<Rightarrow> RDP03 option \<Rightarrow> effect list \<times> (error + number)" where
  "contarEventosPorMes h c mes_p anio_p instanciaEnUso =
     (let conteo = contar_mes_conteo h mes_p anio_p
      in case execute_number c instanciaEnUso conteo Responsable of
           Inl e \<Rightarrow>
             ([Executed instanciaEnUso conteo Responsable,
               ConsoleError ''Error contando eventos por mes:'' e], Inl e)
         | Inr count \<Rightarrow> ([Executed instanciaEnUso conteo Responsable], Inr (o_cero count)))"

section \<open>The HTTP endpoint\<close>

text \<open>
  The handler of \<open>GET /\<close>, as it runs once the two authentication middlewares have let
  the request through. A query value reaches the handler as text, or not at all. The
  handler reads it through its truthiness and through \<open>Number(value)\<close> only, so the
  request holds for each of \<open>Mes\<close>, \<open>Anio\<close>, \<open>Limit\<close> and \<open>Offset\<close> either \<open>None\<close>,
  when the value is absent or empty (falsy), or \<open>Some (Number value)\<close>.
\<close>

record request =
  Mes :: "number option"
  Anio :: "number option"
  Limit :: "number option"
  Offset :: "number option"
  RDP03_INSTANCE :: "RDP03 option"

text \<open>
  Modelled from the spec: the error-type tags of RequestErrorTypes and SystemErrorTypes
  are declared outside the sources at hand; these are the two the handler uses.
\<close>

datatype error_type = INVALID_PARAMETERS | UNKNOWN_ERROR

text \<open>The messages of the handler: each template with the values it interpolates.\<close>

datatype mensaje =
    Limite_entre_1_y number
  | Offset_mayor_o_igual_a_0
  | Mes_entre_1_y_12
  | Anio_entre_1900_y_2100
  | No_se_encontraron_del_mes number "number option"
  | No_se_encontraron_en_el_sistema
  | Se_encontraron_del_mes nat number number "number option"
  | Se_encontraron nat number
  | Error_interno_del_servidor

datatype body =
    ErrorResponseAPIBase (success: bool) (message: mensaje) (errorType: error_type)
      (details: "error option")
  | GetEventosSuccessResponse (success: bool) (message: mensaje) (data: "T_Eventos list")
      (body_total: number)

record response =
  status :: nat
  json :: body

definition MAXIMA_CANTIDAD_EVENTOS :: number where
  "MAXIMA_CANTIDAD_EVENTOS = Finite 100"

text \<open>\<open>anio ? ` del anio ${anio}` : ""\<close>: the year appears in a message only when truthy.\<close>

definition del_anio :: "number option \<Rightarrow> number option" where
  "del_anio a = (case a of None \<Rightarrow> None | Some y \<Rightarrow> (if truthy y then Some y else None))"

definition EventosRouter_get :: "host \<Rightarrow> connector \<Rightarrow> request \<Rightarrow> effect list \<times> response" where
  "EventosRouter_get h c req =
     (let limit_v = (case Limit req of Some v \<Rightarrow> v | None \<Rightarrow> MAXIMA_CANTIDAD_EVENTOS);
          offset_v = (case Offset req of Some v \<Rightarrow> v | None \<Rightarrow> Finite 0);
          mes_v = Mes req;
          anio_v = Anio req;
          recibidos = [ConsoleLog ''Parametros recibidos:'']
      in if isNaN limit_v \<or> lt limit_v (Finite 1) \<or> gt limit_v MAXIMA_CANTIDAD_EVENTOS then
           (recibidos,
            \<lparr>status = 400,
             json = ErrorResponseAPIBase False (Limite_entre_1_y MAXIMA_CANTIDAD_EVENTOS)
                      INVALID_PARAMETERS None\<rparr>)
         else if isNaN offset_v \<or> lt offset_v (Finite 0) then
           (recibidos,
            \<lparr>status = 400,
             json = ErrorResponseAPIBase False Offset_mayor_o_igual_a_0 INVALID_PARAMETERS None\<rparr>)
         else if (case mes_v of None \<Rightarrow> False
                  | Some m \<Rightarrow> isNaN m \<or> lt m (Finite 1) \<or> gt m (Finite 12)) then
           (recibidos,
            \<lparr>status = 400,
             json = ErrorResponseAPIBase False Mes_entre_1_y_12 INVALID_PARAMETERS None\<rparr>)
         else if (case anio_v of None \<Rightarrow> False
                  | Some a \<Rightarrow> isNaN a \<or> lt a (Finite 1900) \<or> gt a (Finite 2100)) then
           (recibidos,
            \<lparr>status = 400,
             json = ErrorResponseAPIBase False Anio_entre_1900_y_2100 INVALID_PARAMETERS None\<rparr>)
         else
           (case buscarEventos h c
                   \<lparr>mes = mes_v, anio = anio_v, limit = limit_v, offset = offset_v\<rparr>
                   (RDP03_INSTANCE req) of
              (efectos, Inl e) \<Rightarrow>
                (recibidos @ efectos @ [ConsoleError ''Error al buscar eventos:'' e],
                 \<lparr>status = 500,
                  json = ErrorResponseAPIBase False Error_interno_del_servidor UNKNOWN_ERROR
                           (Some e)\<rparr>)
            | (efectos, Inr r) \<Rightarrow>
                if length (eventos r) = 0 then
                  (recibidos @ efectos,
                   \<lparr>status = 404,
                    json = GetEventosSuccessResponse True
                             (case mes_v of
                                Some m \<Rightarrow> No_se_encontraron_del_mes m (del_anio anio_v)
                              | None \<Rightarrow> No_se_encontraron_en_el_sistema)
                             [] (Finite 0)\<rparr>)
                else
                  (recibidos @ efectos,
                   \<lparr>status = 200,
                    json = GetEventosSuccessResponse True
                             (case mes_v of
                                Some m \<Rightarrow> Se_encontraron_del_mes (length (eventos r)) (total r) m
                                            (del_anio anio_v)
                              | None \<Rightarrow> Se_encontraron (length (eventos r)) (total r))
                             (eventos r) (total r)\<rparr>)))"

text \<open>The parameters that the handler hands to buscarEventos (lines 33-36 and 76).\<close>

definition parametros_de :: "request \<Rightarrow> BuscarEventosParams" where
  "parametros_de req =
     \<lparr>mes = Mes req,
      anio = Anio req,
      limit = (case Limit req of Some v \<Rightarrow> v | None \<Rightarrow> MAXIMA_CANTIDAD_EVENTOS),
      offset = (case Offset req of Some v \<Rightarrow> v | None \<Rightarrow> Finite 0)\<rparr>"

text \<open>The ranges of the four parameters, as the specification gives them.\<close>

definition limite_en_rango :: "request \<Rightarrow> bool" where
  "limite_en_rango req =
     (case Limit req of
        None \<Rightarrow> True
      | Some (Finite r) \<Rightarrow> 1 \<le> r \<and> r \<le> 100
      | Some _ \<Rightarrow> False)"

definition offset_en_rango :: "request \<Rightarrow> bool" where
  "offset_en_rango req =
     (case Offset req of
        None \<Rightarrow> True
      | Some (Finite r) \<Rightarrow> 0 \<le> r
      | Some Infinity \<Rightarrow> True
      | Some _ \<Rightarrow> False)"

definition mes_en_rango :: "request \<Rightarrow> bool" where
  "mes_en_rango req =
     (case Mes req of
        None \<Rightarrow> True
      | Some (Finite r) \<Rightarrow> 1 \<le> r \<and> r \<le> 12
      | Some _ \<Rightarrow> False)"

definition anio_en_rango :: "request \<Rightarrow> bool" where
  "anio_en_rango req =
     (case Anio req of
        None \<Rightarrow> True
      | Some (Finite r) \<Rightarrow> 1900 \<le> r \<and> r \<le> 2100
      | Some _ \<Rightarrow> False)"

definition parametros_validos :: "request \<Rightarrow> bool" where
  "parametros_validos req =
     (limite_en_rango req \<and> offset_en_rango req \<and> mes_en_rango req \<and> anio_en_rango req)"

text \<open>The message of the first range that a request violates, in the order of the checks.\<close>

definition primera_violacion :: "request \<Rightarrow> mensaje" where
  "primera_violacion req =
     (if \<not> limite_en_rango req then Limite_entre_1_y (Finite 100)
      else if \<not> offset_en_rango req then Offset_mayor_o_igual_a_0
      else if \<not> mes_en_rango req then Mes_entre_1_y_12
      else Anio_entre_1900_y_2100)"

fun es_consulta :: "effect \<Rightarrow> bool" where
  "es_consulta (Executed i op r) = True"
| "es_consulta _ = False"

section \<open>Stored documents and the meaning of a filter\<close>

text \<open>
  A stored event, with its dates as the database keeps them (milliseconds since the
  epoch), and the meaning of a filter document on it, as MongoDB reads the operators:
  \<open>$or\<close> holds when a clause holds, \<open>$and\<close> when all do, \<open>$gte\<close> and \<open>$lte\<close> are
  inclusive comparisons of the field with the bound, and the empty filter holds always.
\<close>

record documento =
  doc_id :: ObjectId
  doc_Id_Evento :: id_evento
  doc_Nombre :: string
  doc_Fecha_Inicio :: int
  doc_Fecha_Conclusion :: int

fun valor :: "campo \<Rightarrow> documento \<Rightarrow> int" where
  "valor Campo_Fecha_Inicio d = doc_Fecha_Inicio d"
| "valor Campo_Fecha_Conclusion d = doc_Fecha_Conclusion d"

fun coincide :: "filtro \<Rightarrow> documento \<Rightarrow> bool"
  and alguno :: "filtro list \<Rightarrow> documento \<Rightarrow> bool"
  and todos :: "filtro list \<Rightarrow> documento \<Rightarrow> bool" where
  "coincide Vacio d = True"
| "coincide (Or fs) d = alguno fs d"
| "coincide (And fs) d = todos fs d"
| "coincide (Gte c v) d = date_ge (TimeValue (valor c d)) v"
| "coincide (Lte c v) d = date_le (TimeValue (valor c d)) v"
| "coincide (Id_Evento_igual n) d = (doc_Id_Evento d = IdNumber n)"
| "alguno [] d = False"
| "alguno (f # fs) d = (coincide f d \<or> alguno fs d)"
| "todos [] d = True"
| "todos (f # fs) d = (coincide f d \<and> todos fs d)"

section \<open>An executor over a collection held in memory\<close>

text \<open>
  Modelled from the spec: executeMongoOperation and the database behind it are outside the
  sources at hand. The specification describes a count operation with a filter and a find
  operation with the same filter, a sort by start time ascending, a skip/limit pagination
  window and a field projection. The executor below gives these their meaning on a list of
  stored documents; its sort is stable. A window is given a meaning when skip is a natural
  number and limit a positive one; the executor throws on any other. Role checks and
  transport failures are not part of it.
\<close>

definition como_natural :: "number \<Rightarrow> nat option" where
  "como_natural n =
     (case n of
        Finite r \<Rightarrow> (if 0 \<le> r \<and> of_int \<lfloor>r\<rfloor> = r then Some (nat \<lfloor>r\<rfloor>) else None)
      | _ \<Rightarrow> None)"

definition ordenar :: "(campo \<times> int) option \<Rightarrow> documento list \<Rightarrow> documento list" where
  "ordenar s ds =
     (case s of
        None \<Rightarrow> ds
      | Some (c, sentido) \<Rightarrow>
          (if sentido = 1 then sort_key (valor c) ds
           else if sentido = - 1 then rev (sort_key (valor c) ds)
           else ds))"

definition ventana :: "number option \<Rightarrow> number option \<Rightarrow> 'a list \<Rightarrow> error + 'a list" where
  "ventana skip_p limit_p xs =
     (case (case skip_p of None \<Rightarrow> Some 0 | Some n \<Rightarrow> como_natural n) of
        None \<Rightarrow> Inl (Error ''BadValue'')
      | Some k \<Rightarrow>
          (case limit_p of
             None \<Rightarrow> Inr (drop k xs)
           | Some n \<Rightarrow>
               (case como_natural n of
                  None \<Rightarrow> Inl (Error ''BadValue'')
                | Some l \<Rightarrow> (if l = 0 then Inl (Error ''BadValue'') else Inr (take l (drop k xs))))))"

definition encontrar :: "documento list \<Rightarrow> mongo_operation \<Rightarrow> error + documento list" where
  "encontrar db op =
     (let coincidentes = filter (coincide (filter_doc op)) db
      in case options op of
           None \<Rightarrow> Inr coincidentes
         | Some opts \<Rightarrow> ventana (opt_skip opts) (opt_limit opts) (ordenar (opt_sort opts) coincidentes))"

definition contar :: "documento list \<Rightarrow> mongo_operation \<Rightarrow> number" where
  "contar db op = Finite (of_nat (length (filter (coincide (filter_doc op)) db)))"

definition proyeccion_de :: "mongo_operation \<Rightarrow> (string \<times> nat) list" where
  "proyeccion_de op = (case options op of None \<Rightarrow> [] | Some opts \<Rightarrow> opt_projection opts)"

text \<open>A stored document as the driver hands it over; \<open>_id\<close> is present unless projected out.\<close>

definition leer_raw :: "(string \<times> nat) list \<Rightarrow> documento \<Rightarrow> evento_raw" where
  "leer_raw proyeccion d =
     \<lparr>raw_id = (if (''_id'', 0) \<in> set proyeccion then None else Some (doc_id d)),
      raw_Nombre = doc_Nombre d,
      raw_Fecha_Inicio = TimeValue (doc_Fecha_Inicio d),
      raw_Fecha_Conclusion = TimeValue (doc_Fecha_Conclusion d)\<rparr>"

definition leer_evento :: "documento \<Rightarrow> T_Eventos" where
  "leer_evento d =
     \<lparr>Id_Evento = doc_Id_Evento d,
      Nombre = doc_Nombre d,
      Fecha_Inicio = TimeValue (doc_Fecha_Inicio d),
      Fecha_Conclusion = TimeValue (doc_Fecha_Conclusion d)\<rparr>"

definition mongo :: "documento list \<Rightarrow> connector" where
  "mongo db =
     \<lparr>execute_number = (\<lambda>instancia op rol. Inr (Some (contar db op))),
      execute_any = (\<lambda>instancia op rol.
         case encontrar db op of
           Inl e \<Rightarrow> Inl e
         | Inr ds \<Rightarrow> Inr (Some (map (leer_raw (proyeccion_de op)) ds))),
      execute_eventos = (\<lambda>instancia op rol.
         case encontrar db op of
           Inl e \<Rightarrow> Inl e
         | Inr ds \<Rightarrow> Inr (Some (map leer_evento ds))),
      execute_evento = (\<lambda>instancia op rol.
         case filter (coincide (filter_doc op)) db of
           [] \<Rightarrow> Inr None
         | d # resto \<Rightarrow> Inr (Some (leer_evento d)))\<rparr>"

text \<open>An event of the unified search, as it is built from a stored document.\<close>

definition evento_de :: "documento \<Rightarrow> T_Eventos" where
  "evento_de d =
     \<lparr>Id_Evento = IdString (toString (doc_id d)),
      Nombre = doc_Nombre d,
      Fecha_Inicio = TimeValue (doc_Fecha_Inicio d),
      Fecha_Conclusion = TimeValue (doc_Fecha_Conclusion d)\<rparr>"

section \<open>Concrete hosts, documents and executors\<close>

text \<open>A host at UTC.\<close>

definition host_utc :: host where
  "host_utc = \<lparr>LocalTZA = (\<lambda>t isUTC. 0), currentFullYear = 2026\<rparr>"


definition documento_0_10 :: documento where
  "documento_0_10 =
     \<lparr>doc_id = ObjectId ''65f0c0ffee0000000000000a'', doc_Id_Evento = IdNumber (Finite 1),
      doc_Nombre = ''Aniversario'', doc_Fecha_Inicio = 0, doc_Fecha_Conclusion = 10\<rparr>"

definition evento_horas :: "int \<Rightarrow> int \<Rightarrow> T_Eventos" where
  "evento_horas desde hasta =
     \<lparr>Id_Evento = IdString ''65f0c0ffee0000000000000b'', Nombre = ''Reunion'',
      Fecha_Inicio = TimeValue (desde * 3600000), Fecha_Conclusion = TimeValue (hasta * 3600000)\<rparr>"


text \<open>An executor on which every operation throws the same error.\<close>

definition conector_caido :: "error \<Rightarrow> connector" where
  "conector_caido e =
     \<lparr>execute_number = (\<lambda>instancia op rol. Inl e),
      execute_any = (\<lambda>instancia op rol. Inl e),
      execute_eventos = (\<lambda>instancia op rol. Inl e),
      execute_evento = (\<lambda>instancia op rol. Inl e)\<rparr>"

text \<open>An executor on which every operation completes with a null result.\<close>

definition conector_nulo :: connector where
  "conector_nulo =
     \<lparr>execute_number = (\<lambda>instancia op rol. Inr None),
      execute_any = (\<lambda>instancia op rol. Inr None),
      execute_eventos = (\<lambda>instancia op rol. Inr None),
      execute_evento = (\<lambda>instancia op rol. Inr None)\<rparr>"

text \<open>A request with the given Limit, Offset, Mes and Anio.\<close>

definition peticion ::
  "number option \<Rightarrow> number option \<Rightarrow> number option \<Rightarrow> number option \<Rightarrow> request" where
  "peticion l k m a = \<lparr>Mes = m, Anio = a, Limit = l, Offset = k, RDP03_INSTANCE = None\<rparr>"

text \<open>A collection of \<open>n\<close> events, event \<open>i\<close> running from instant \<open>i\<close> to \<open>i + 1\<close>.\<close>

definition documento_n :: "nat \<Rightarrow> documento" where
  "documento_n i =
     \<lparr>doc_id = ObjectId ''65f0c0ffee00000000000000'', doc_Id_Evento = IdNumber (Finite (of_nat i)),
      doc_Nombre = ''Evento'', doc_Fecha_Inicio = int i, doc_Fecha_Conclusion = int i + 1\<rparr>"

definition coleccion :: "nat \<Rightarrow> documento list" where
  "coleccion n = map documento_n [0..<n]"

section \<open>The Date arithmetic agrees with the calendar\<close>



























section \<open>Month and year boundaries are the first and last instants\<close>


















section \<open>The overlap filter and the conflict check\<close>

lemma coincide_filtroTraslape:
  "coincide (filtroTraslape rs re) d =
     ((date_ge (TimeValue (doc_Fecha_Inicio d)) rs \<and> date_le (TimeValue (doc_Fecha_Inicio d)) re)
      \<or> (date_ge (TimeValue (doc_Fecha_Conclusion d)) rs \<and> date_le (TimeValue (doc_Fecha_Conclusion d)) re)
      \<or> (date_le (TimeValue (doc_Fecha_Inicio d)) rs \<and> date_ge (TimeValue (doc_Fecha_Conclusion d)) re))"
  by (simp add: filtroTraslape_def)

lemma tres_clausulas_dos_clausulas:
  assumes "a \<le> b" and "doc_Fecha_Inicio d \<le> doc_Fecha_Conclusion d"
  shows "coincide (filtroTraslape (TimeValue a) (TimeValue b)) d =
         (doc_Fecha_Inicio d \<le> b \<and> a \<le> doc_Fecha_Conclusion d)"
  using assms by (auto simp add: coincide_filtroTraslape date_ge_def)

lemma verificar_leidos:
  "verificarConflictoConEventos fi ff (map leer_evento ds) =
   map leer_evento (filter (\<lambda>d. date_le (TimeValue (doc_Fecha_Inicio d)) ff
                              \<and> date_ge (TimeValue (doc_Fecha_Conclusion d)) fi) ds)"
  by (induction ds) (simp_all add: verificarConflictoConEventos_def leer_evento_def copiaDate_def)

text \<open>
  Claim C1, as amended. For every query range with \<open>rangeStart \<le> rangeEnd\<close> and every
  event with \<open>Fecha_Inicio \<le> Fecha_Conclusion\<close>, the three-clause filter holds exactly when
  the two-clause test \<open>Fecha_Inicio \<le> rangeEnd\<close> and \<open>Fecha_Conclusion \<ge> rangeStart\<close> holds,
  so filtering the stored events by it gives what verificarConflictoConEventos keeps of
  them; an event entirely before or entirely after the range never matches, an event
  touching a boundary instant matches, and an event contained in the range matches.
\<close>

theorem filtro_de_tres_clausulas:
  assumes "a \<le> b"
    and "\<forall>d \<in> set db. doc_Fecha_Inicio d \<le> doc_Fecha_Conclusion d"
  shows "(\<forall>d \<in> set db.
            coincide (filtroTraslape (TimeValue a) (TimeValue b)) d =
            (date_le (TimeValue (doc_Fecha_Inicio d)) (TimeValue b)
             \<and> date_ge (TimeValue (doc_Fecha_Conclusion d)) (TimeValue a)))
       \<and> map leer_evento (filter (coincide (filtroTraslape (TimeValue a) (TimeValue b))) db) =
           verificarConflictoConEventos (TimeValue a) (TimeValue b) (map leer_evento db)
       \<and> (\<forall>d \<in> set db. doc_Fecha_Conclusion d < a
             \<longrightarrow> \<not> coincide (filtroTraslape (TimeValue a) (TimeValue b)) d)
       \<and> (\<forall>d \<in> set db. b < doc_Fecha_Inicio d
             \<longrightarrow> \<not> coincide (filtroTraslape (TimeValue a) (TimeValue b)) d)
       \<and> (\<forall>d \<in> set db. doc_Fecha_Conclusion d = a \<or> doc_Fecha_Inicio d = b
             \<longrightarrow> coincide (filtroTraslape (TimeValue a) (TimeValue b)) d)
       \<and> (\<forall>d \<in> set db. a \<le> doc_Fecha_Inicio d \<and> doc_Fecha_Conclusion d \<le> b
             \<longrightarrow> coincide (filtroTraslape (TimeValue a) (TimeValue b)) d)"
proof -
  have eq: "coincide (filtroTraslape (TimeValue a) (TimeValue b)) d =
            (doc_Fecha_Inicio d \<le> b \<and> a \<le> doc_Fecha_Conclusion d)"
    and wf: "doc_Fecha_Inicio d \<le> doc_Fecha_Conclusion d" if "d \<in> set db" for d
    using tres_clausulas_dos_clausulas [OF assms(1)] assms(2) that by blast+
  have 1: "\<forall>d \<in> set db.
            coincide (filtroTraslape (TimeValue a) (TimeValue b)) d =
            (date_le (TimeValue (doc_Fecha_Inicio d)) (TimeValue b)
             \<and> date_ge (TimeValue (doc_Fecha_Conclusion d)) (TimeValue a))"
    using eq by (simp add: date_ge_def)
  have "filter (coincide (filtroTraslape (TimeValue a) (TimeValue b))) db =
        filter (\<lambda>d. date_le (TimeValue (doc_Fecha_Inicio d)) (TimeValue b)
                   \<and> date_ge (TimeValue (doc_Fecha_Conclusion d)) (TimeValue a)) db"
    using 1 by (intro filter_cong) simp_all
  then have 2: "map leer_evento (filter (coincide (filtroTraslape (TimeValue a) (TimeValue b))) db) =
           verificarConflictoConEventos (TimeValue a) (TimeValue b) (map leer_evento db)"
    by (simp add: verificar_leidos)
  have 3: "\<forall>d \<in> set db. doc_Fecha_Conclusion d < a
             \<longrightarrow> \<not> coincide (filtroTraslape (TimeValue a) (TimeValue b)) d"
    using eq by simp
  have 4: "\<forall>d \<in> set db. b < doc_Fecha_Inicio d
             \<longrightarrow> \<not> coincide (filtroTraslape (TimeValue a) (TimeValue b)) d"
    using eq by simp
  have 5: "\<forall>d \<in> set db. doc_Fecha_Conclusion d = a \<or> doc_Fecha_Inicio d = b
             \<longrightarrow> coincide (filtroTraslape (TimeValue a) (TimeValue b)) d"
    using eq wf assms(1) by fastforce
  have 6: "\<forall>d \<in> set db. a \<le> doc_Fecha_Inicio d \<and> doc_Fecha_Conclusion d \<le> b
             \<longrightarrow> coincide (filtroTraslape (TimeValue a) (TimeValue b)) d"
    using eq wf by fastforce
  from 1 2 3 4 5 6 show ?thesis by blast
qed

text \<open>An event running from 0 to 10 against the range from 10 to 20: it touches, and matches.\<close>

theorem filtro_de_tres_clausulas_witness:
  "(10::int) \<le> 20
   \<and> doc_Fecha_Inicio documento_0_10 \<le> doc_Fecha_Conclusion documento_0_10
   \<and> coincide (filtroTraslape (TimeValue 10) (TimeValue 20)) documento_0_10
   \<and> verificarConflictoConEventos (TimeValue 10) (TimeValue 20) [leer_evento documento_0_10] =
       [leer_evento documento_0_10]"
  using filtro_de_tres_clausulas [of 10 20 "[documento_0_10]"]
  by (simp add: documento_0_10_def date_ge_def coincide_filtroTraslape
      verificarConflictoConEventos_def leer_evento_def copiaDate_def)

text \<open>
  Claim C1 as stated, for every query range, fails on a range given backwards: against
  the range from 20 to 5, which buscarEventosPorRango puts into its filter as given, the
  event from 0 to 10 satisfies the third clause, while the two-clause test rejects it.
\<close>

theorem rango_invertido_counterexample:
  "doc_Fecha_Inicio documento_0_10 \<le> doc_Fecha_Conclusion documento_0_10
   \<and> coincide (filtroTraslape (TimeValue 20) (TimeValue 5)) documento_0_10
   \<and> \<not> (date_le (TimeValue (doc_Fecha_Inicio documento_0_10)) (TimeValue 5)
         \<and> date_ge (TimeValue (doc_Fecha_Conclusion documento_0_10)) (TimeValue 20))
   \<and> filter_doc (por_rango_busqueda (TimeValue 20) (TimeValue 5)) =
       filtroTraslape (TimeValue 20) (TimeValue 5)
   \<and> verificarConflictoConEventos (TimeValue 20) (TimeValue 5) [leer_evento documento_0_10] = []"
  by (simp add: documento_0_10_def coincide_filtroTraslape date_ge_def
      verificarConflictoConEventos_def leer_evento_def copiaDate_def por_rango_busqueda_def)

lemma Array_filter_sin_efecto:
  assumes "\<And>s x. callback s x = (s, p x)"
  shows "Array_filter callback st xs = (st, filter p xs)"
  by (induction xs) (simp_all add: assms)

lemma conflicto_por_instantes:
  "(date_le (Fecha_Inicio evento) (TimeValue b) \<and> date_ge (Fecha_Conclusion evento) (TimeValue a)) =
   en_conflicto a b evento"
  by (cases "Fecha_Inicio evento"; cases "Fecha_Conclusion evento")
    (simp_all add: en_conflicto_def date_ge_def)

text \<open>
  Claim C3. For a candidate interval from \<open>a\<close> to \<open>b\<close>, verificarConflictoConEventos
  returns exactly the events, in their order, whose stored start is at or before \<open>b\<close> and
  whose stored end is at or after \<open>a\<close>; with an invalid candidate date it returns none.
  Against the candidate from 10:00 to 12:00, the events 11:00-13:00, 12:00-13:00
  (touching the end), 9:00-10:00 (touching the start), 8:00-14:00 and 10:30-11:30 are
  kept, and 13:00-14:00 and 8:00-9:00 are not. The call leaves the state as it found it:
  it adds no effect, so it writes nothing to the console and hands nothing to the
  executor, and the array it was given is unchanged.
\<close>

theorem verificarConflicto_subconjunto:
  "verificarConflictoConEventos (TimeValue a) (TimeValue b) evs = filter (en_conflicto a b) evs
   \<and> verificarConflictoConEventos InvalidDate fechaFin evs = []
   \<and> verificarConflictoConEventos fechaInicio InvalidDate evs = []
   \<and> verificarConflictoConEventos (TimeValue (10 * 3600000)) (TimeValue (12 * 3600000))
        [evento_horas 11 13, evento_horas 12 13, evento_horas 13 14, evento_horas 8 9,
         evento_horas 9 10, evento_horas 8 14,
         \<lparr>Id_Evento = IdString ''65f0c0ffee0000000000000c'', Nombre = ''Recreo'',
          Fecha_Inicio = TimeValue 37800000, Fecha_Conclusion = TimeValue 41400000\<rparr>] =
        [evento_horas 11 13, evento_horas 12 13, evento_horas 9 10, evento_horas 8 14,
         \<lparr>Id_Evento = IdString ''65f0c0ffee0000000000000c'', Nombre = ''Recreo'',
          Fecha_Inicio = TimeValue 37800000, Fecha_Conclusion = TimeValue 41400000\<rparr>]
   \<and> verificarConflictoConEventos_en fechaInicio fechaFin st =
        (st, verificarConflictoConEventos fechaInicio fechaFin (arreglo st))
   \<and> efectos_previos (fst (verificarConflictoConEventos_en fechaInicio fechaFin st)) =
        efectos_previos st
   \<and> arreglo (fst (verificarConflictoConEventos_en fechaInicio fechaFin st)) = arreglo st"
proof -
  have 1: "verificarConflictoConEventos (TimeValue a) (TimeValue b) evs =
           filter (en_conflicto a b) evs"
    unfolding verificarConflictoConEventos_def copiaDate_def Let_def
    by (simp only: conflicto_por_instantes)
  have 2: "verificarConflictoConEventos InvalidDate fechaFin evs = []"
  proof -
    have "\<not> date_ge d InvalidDate" for d by (cases d) (simp_all add: date_ge_def)
    then show ?thesis by (simp add: verificarConflictoConEventos_def)
  qed
  have 3: "verificarConflictoConEventos fechaInicio InvalidDate evs = []"
  proof -
    have "\<not> date_le d InvalidDate" for d by (cases d) simp_all
    then show ?thesis by (simp add: verificarConflictoConEventos_def)
  qed
  have 4: "verificarConflictoConEventos (TimeValue (10 * 3600000)) (TimeValue (12 * 3600000))
        [evento_horas 11 13, evento_horas 12 13, evento_horas 13 14, evento_horas 8 9,
         evento_horas 9 10, evento_horas 8 14,
         \<lparr>Id_Evento = IdString ''65f0c0ffee0000000000000c'', Nombre = ''Recreo'',
          Fecha_Inicio = TimeValue 37800000, Fecha_Conclusion = TimeValue 41400000\<rparr>] =
        [evento_horas 11 13, evento_horas 12 13, evento_horas 9 10, evento_horas 8 14,
         \<lparr>Id_Evento = IdString ''65f0c0ffee0000000000000c'', Nombre = ''Recreo'',
          Fecha_Inicio = TimeValue 37800000, Fecha_Conclusion = TimeValue 41400000\<rparr>]"
    by (simp add: verificarConflictoConEventos_def copiaDate_def evento_horas_def date_ge_def)
  have 5: "verificarConflictoConEventos_en fechaInicio fechaFin st =
        (st, verificarConflictoConEventos fechaInicio fechaFin (arreglo st))"
    unfolding verificarConflictoConEventos_en_def verificarConflictoConEventos_def
    by (rule Array_filter_sin_efecto) (simp add: hay_traslape_def)
  from 1 2 3 4 5 show ?thesis by simp
qed

section \<open>The endpoint: validation and the empty result\<close>

lemma limite_fuera:
  "(isNaN (limit (parametros_de req)) \<or> lt (limit (parametros_de req)) (Finite 1)
      \<or> gt (limit (parametros_de req)) MAXIMA_CANTIDAD_EVENTOS) = (\<not> limite_en_rango req)"
  by (auto simp add: limite_en_rango_def parametros_de_def MAXIMA_CANTIDAD_EVENTOS_def gt_def
      split: option.splits number.splits)

lemma offset_fuera:
  "(isNaN (offset (parametros_de req)) \<or> lt (offset (parametros_de req)) (Finite 0)) =
     (\<not> offset_en_rango req)"
  by (auto simp add: offset_en_rango_def parametros_de_def split: option.splits number.splits)

lemma mes_fuera:
  "(case Mes req of None \<Rightarrow> False
    | Some m \<Rightarrow> isNaN m \<or> lt m (Finite 1) \<or> gt m (Finite 12)) = (\<not> mes_en_rango req)"
  by (auto simp add: mes_en_rango_def gt_def split: option.splits number.splits)

lemma anio_fuera:
  "(case Anio req of None \<Rightarrow> False
    | Some a \<Rightarrow> isNaN a \<or> lt a (Finite 1900) \<or> gt a (Finite 2100)) = (\<not> anio_en_rango req)"
  by (auto simp add: anio_en_rango_def gt_def split: option.splits number.splits)

lemma EventosRouter_get_plegado:
  "EventosRouter_get h c req =
     (if \<not> limite_en_rango req then
        ([ConsoleLog ''Parametros recibidos:''],
         \<lparr>status = 400,
          json = ErrorResponseAPIBase False (Limite_entre_1_y MAXIMA_CANTIDAD_EVENTOS)
                   INVALID_PARAMETERS None\<rparr>)
      else if \<not> offset_en_rango req then
        ([ConsoleLog ''Parametros recibidos:''],
         \<lparr>status = 400,
          json = ErrorResponseAPIBase False Offset_mayor_o_igual_a_0 INVALID_PARAMETERS None\<rparr>)
      else if \<not> mes_en_rango req then
        ([ConsoleLog ''Parametros recibidos:''],
         \<lparr>status = 400,
          json = ErrorResponseAPIBase False Mes_entre_1_y_12 INVALID_PARAMETERS None\<rparr>)
      else if \<not> anio_en_rango req then
        ([ConsoleLog ''Parametros recibidos:''],
         \<lparr>status = 400,
          json = ErrorResponseAPIBase False Anio_entre_1900_y_2100 INVALID_PARAMETERS None\<rparr>)
      else
        (case buscarEventos h c (parametros_de req) (RDP03_INSTANCE req) of
           (efectos, Inl e) \<Rightarrow>
             ([ConsoleLog ''Parametros recibidos:''] @ efectos
                @ [ConsoleError ''Error al buscar eventos:'' e],
              \<lparr>status = 500,
               json = ErrorResponseAPIBase False Error_interno_del_servidor UNKNOWN_ERROR
                        (Some e)\<rparr>)
         | (efectos, Inr r) \<Rightarrow>
             if length (eventos r) = 0 then
               ([ConsoleLog ''Parametros recibidos:''] @ efectos,
                \<lparr>status = 404,
                 json = GetEventosSuccessResponse True
                          (case Mes req of
                             Some m \<Rightarrow> No_se_encontraron_del_mes m (del_anio (Anio req))
                           | None \<Rightarrow> No_se_encontraron_en_el_sistema)
                          [] (Finite 0)\<rparr>)
             else
               ([ConsoleLog ''Parametros recibidos:''] @ efectos,
                \<lparr>status = 200,
                 json = GetEventosSuccessResponse True
                          (case Mes req of
                             Some m \<Rightarrow> Se_encontraron_del_mes (length (eventos r)) (total r) m
                                         (del_anio (Anio req))
                           | None \<Rightarrow> Se_encontraron (length (eventos r)) (total r))
                          (eventos r) (total r)\<rparr>)))"
proof -
  have l: "(case Limit req of Some v \<Rightarrow> v | None \<Rightarrow> MAXIMA_CANTIDAD_EVENTOS) =
      limit (parametros_de req)"
    and k: "(case Offset req of Some v \<Rightarrow> v | None \<Rightarrow> Finite 0) = offset (parametros_de req)"
    by (simp_all add: parametros_de_def)
  have p: "\<lparr>mes = Mes req, anio = Anio req, limit = limit (parametros_de req),
            offset = offset (parametros_de req)\<rparr> = parametros_de req"
    by (simp add: parametros_de_def)
  show ?thesis
    unfolding EventosRouter_get_def Let_def l k p limite_fuera offset_fuera mes_fuera anio_fuera
    by (rule refl)
qed

lemma EventosRouter_get_invalido:
  assumes "\<not> parametros_validos req"
  shows "EventosRouter_get h c req =
           ([ConsoleLog ''Parametros recibidos:''],
            \<lparr>status = 400,
             json = ErrorResponseAPIBase False (primera_violacion req) INVALID_PARAMETERS None\<rparr>)"
  using assms unfolding EventosRouter_get_plegado parametros_validos_def primera_violacion_def
  by (simp add: MAXIMA_CANTIDAD_EVENTOS_def)

lemma EventosRouter_get_valido:
  assumes "parametros_validos req"
  shows "EventosRouter_get h c req =
     (case buscarEventos h c (parametros_de req) (RDP03_INSTANCE req) of
        (efectos, Inl e) \<Rightarrow>
          (ConsoleLog ''Parametros recibidos:'' # efectos @ [ConsoleError ''Error al buscar eventos:'' e],
           \<lparr>status = 500,
            json = ErrorResponseAPIBase False Error_interno_del_servidor UNKNOWN_ERROR (Some e)\<rparr>)
      | (efectos, Inr r) \<Rightarrow>
          if eventos r = [] then
            (ConsoleLog ''Parametros recibidos:'' # efectos,
             \<lparr>status = 404,
              json = GetEventosSuccessResponse True
                       (case Mes req of
                          Some m \<Rightarrow> No_se_encontraron_del_mes m (del_anio (Anio req))
                        | None \<Rightarrow> No_se_encontraron_en_el_sistema)
                       [] (Finite 0)\<rparr>)
          else
            (ConsoleLog ''Parametros recibidos:'' # efectos,
             \<lparr>status = 200,
              json = GetEventosSuccessResponse True
                       (case Mes req of
                          Some m \<Rightarrow> Se_encontraron_del_mes (length (eventos r)) (total r) m
                                      (del_anio (Anio req))
                        | None \<Rightarrow> Se_encontraron (length (eventos r)) (total r))
                       (eventos r) (total r)\<rparr>))"
  using assms unfolding EventosRouter_get_plegado parametros_validos_def
  by (simp split: prod.splits sum.splits)

text \<open>
  Claim C4. The handler validates the four optional parameters against the ranges limit in
  [1,100], offset at least 0, month in [1,12] and year in [1900,2100]. When a range is
  violated the response is 400 with success false, the error type INVALID_PARAMETERS and
  the message of the first violated range, and no database operation has been issued; when
  no range is violated the response is not 400.
\<close>

theorem validacion_de_parametros:
  "(\<not> parametros_validos req \<longrightarrow>
      EventosRouter_get h c req =
        ([ConsoleLog ''Parametros recibidos:''],
         \<lparr>status = 400,
          json = ErrorResponseAPIBase False (primera_violacion req) INVALID_PARAMETERS None\<rparr>)
      \<and> filter es_consulta (fst (EventosRouter_get h c req)) = [])
   \<and> (parametros_validos req \<longrightarrow> status (snd (EventosRouter_get h c req)) \<noteq> 400)"
proof -
  have "status (snd (EventosRouter_get h c req)) \<noteq> 400" if "parametros_validos req"
    unfolding EventosRouter_get_valido [OF that]
    by (simp split: prod.splits sum.splits)
  then show ?thesis
    by (simp add: EventosRouter_get_invalido)
qed

text \<open>
  The requests of the specification: limit=0, limit=101, offset=-1, month=13 and year=1800
  are each answered with 400; limit=10 with offset=20 is not.
\<close>

theorem validacion_de_parametros_witness:
  "snd (EventosRouter_get host_utc (mongo []) (peticion (Some (Finite 0)) None None None)) =
     \<lparr>status = 400,
      json = ErrorResponseAPIBase False (Limite_entre_1_y (Finite 100)) INVALID_PARAMETERS None\<rparr>
   \<and> snd (EventosRouter_get host_utc (mongo []) (peticion (Some (Finite 101)) None None None)) =
     \<lparr>status = 400,
      json = ErrorResponseAPIBase False (Limite_entre_1_y (Finite 100)) INVALID_PARAMETERS None\<rparr>
   \<and> snd (EventosRouter_get host_utc (mongo []) (peticion None (Some (Finite (- 1))) None None)) =
     \<lparr>status = 400,
      json = ErrorResponseAPIBase False Offset_mayor_o_igual_a_0 INVALID_PARAMETERS None\<rparr>
   \<and> snd (EventosRouter_get host_utc (mongo []) (peticion None None (Some (Finite 13)) None)) =
     \<lparr>status = 400,
      json = ErrorResponseAPIBase False Mes_entre_1_y_12 INVALID_PARAMETERS None\<rparr>
   \<and> snd (EventosRouter_get host_utc (mongo []) (peticion None None None (Some (Finite 1800)))) =
     \<lparr>status = 400,
      json = ErrorResponseAPIBase False Anio_entre_1900_y_2100 INVALID_PARAMETERS None\<rparr>
   \<and> fst (EventosRouter_get host_utc (mongo []) (peticion None None (Some NaN) None)) =
     [ConsoleLog ''Parametros recibidos:'']
   \<and> parametros_validos (peticion (Some (Finite 10)) (Some (Finite 20)) None None)
   \<and> status (snd (EventosRouter_get host_utc (mongo [])
        (peticion (Some (Finite 10)) (Some (Finite 20)) None None))) \<noteq> 400"
  using validacion_de_parametros [of "peticion (Some (Finite 0)) None None None" host_utc "mongo []"]
    validacion_de_parametros [of "peticion (Some (Finite 101)) None None None" host_utc "mongo []"]
    validacion_de_parametros [of "peticion None (Some (Finite (- 1))) None None" host_utc "mongo []"]
    validacion_de_parametros [of "peticion None None (Some (Finite 13)) None" host_utc "mongo []"]
    validacion_de_parametros [of "peticion None None None (Some (Finite 1800))" host_utc "mongo []"]
    validacion_de_parametros [of "peticion None None (Some NaN) None" host_utc "mongo []"]
    validacion_de_parametros [of "peticion (Some (Finite 10)) (Some (Finite 20)) None None" host_utc "mongo []"]
  by (simp add: parametros_validos_def limite_en_rango_def offset_en_rango_def mes_en_rango_def
      anio_en_rango_def primera_violacion_def peticion_def)

text \<open>
  Claim C5. When the parameters validate and the search returns no event, the response has
  status 404 and a body with success true, an empty data list, total 0 and a message that
  names what was searched.
\<close>

theorem sin_eventos_responde_404:
  assumes "parametros_validos req"
    and "buscarEventos h c (parametros_de req) (RDP03_INSTANCE req) = (efectos, Inr r)"
    and "eventos r = []"
  shows "EventosRouter_get h c req =
           (ConsoleLog ''Parametros recibidos:'' # efectos,
            \<lparr>status = 404,
             json = GetEventosSuccessResponse True
                      (case Mes req of
                         Some m \<Rightarrow> No_se_encontraron_del_mes m (del_anio (Anio req))
                       | None \<Rightarrow> No_se_encontraron_en_el_sistema)
                      [] (Finite 0)\<rparr>)"
  unfolding EventosRouter_get_valido [OF assms(1)] using assms(2,3) by simp

section \<open>The unified search on the executor in memory\<close>

lemma como_natural_of_nat: "como_natural (Finite (of_nat n)) = Some n"
  by (simp add: como_natural_def)

lemma transformar_leidos:
  "(''_id'', 0) \<notin> set proyeccion \<Longrightarrow>
   transformar (map (leer_raw proyeccion) ds) = Inr (map evento_de ds)"
  by (induction ds) (simp_all add: leer_raw_def evento_de_def)

lemma o_cero_of_nat: "o_cero (Some (Finite (of_nat n))) = Finite (of_nat n)"
  by (simp add: o_cero_def)

lemma buscarEventos_mongo:
  assumes "0 < l"
  shows "buscarEventos h (mongo db)
           \<lparr>mes = m, anio = a, limit = Finite (of_nat l), offset = Finite (of_nat k)\<rparr> i =
         ([Executed i (operacion_conteo h
              \<lparr>mes = m, anio = a, limit = Finite (of_nat l), offset = Finite (of_nat k)\<rparr>) Responsable,
           Executed i (operacion_busqueda h
              \<lparr>mes = m, anio = a, limit = Finite (of_nat l), offset = Finite (of_nat k)\<rparr>) Responsable],
          Inr \<lparr>eventos = map evento_de (take l (drop k (sort_key doc_Fecha_Inicio
                            (filter (coincide (filtroComun h m a)) db)))),
               total = Finite (of_nat (length (filter (coincide (filtroComun h m a)) db)))\<rparr>)"
proof -
  let ?p = "\<lparr>mes = m, anio = a, limit = Finite (of_nat l), offset = Finite (of_nat k)\<rparr>"
  have n: "execute_number (mongo db) i (operacion_conteo h ?p) Responsable =
           Inr (Some (Finite (of_nat (length (filter (coincide (filtroComun h m a)) db)))))"
    by (simp add: mongo_def contar_def operacion_conteo_def)
  have v: "valor Campo_Fecha_Inicio = doc_Fecha_Inicio" by (rule ext) simp
  have e: "encontrar db (operacion_busqueda h ?p) =
           Inr (take l (drop k (sort_key doc_Fecha_Inicio (filter (coincide (filtroComun h m a)) db))))"
    using assms
    by (simp add: encontrar_def operacion_busqueda_def ventana_def ordenar_def
        como_natural_of_nat v)
  have pr: "(''_id'', 0) \<notin> set (proyeccion_de (operacion_busqueda h ?p))"
    by (simp add: proyeccion_de_def operacion_busqueda_def)
  have f: "execute_any (mongo db) i (operacion_busqueda h ?p) Responsable =
           Inr (Some (map (leer_raw (proyeccion_de (operacion_busqueda h ?p)))
             (take l (drop k (sort_key doc_Fecha_Inicio (filter (coincide (filtroComun h m a)) db))))))"
    by (simp add: mongo_def e)
  show ?thesis
    unfolding buscarEventos_def Let_def n f
    by (simp add: o_vacio_def transformar_leidos [OF pr] o_cero_of_nat)
qed

text \<open>
  March 2024 on an empty collection, and a page beyond the end of a collection of three
  events: both are answered with 404, success true and total 0.
\<close>

theorem sin_eventos_responde_404_witness:
  "parametros_validos (peticion None None (Some (Finite 3)) (Some (Finite 2024)))
   \<and> snd (EventosRouter_get host_utc (mongo [])
            (peticion None None (Some (Finite 3)) (Some (Finite 2024)))) =
       \<lparr>status = 404,
        json = GetEventosSuccessResponse True
                 (No_se_encontraron_del_mes (Finite 3) (Some (Finite 2024))) [] (Finite 0)\<rparr>
   \<and> eventos_total.total (case snd (buscarEventos host_utc (mongo (coleccion 3))
            (parametros_de (peticion None (Some (Finite 5)) None None)) None) of Inr r \<Rightarrow> r) = Finite 3
   \<and> snd (EventosRouter_get host_utc (mongo (coleccion 3)) (peticion None (Some (Finite 5)) None None)) =
       \<lparr>status = 404,
        json = GetEventosSuccessResponse True No_se_encontraron_en_el_sistema [] (Finite 0)\<rparr>"
proof -
  let ?r1 = "peticion None None (Some (Finite 3)) (Some (Finite 2024))"
  let ?r2 = "peticion None (Some (Finite 5)) None None"
  have v1: "parametros_validos ?r1" and v2: "parametros_validos ?r2"
    by (simp_all add: parametros_validos_def limite_en_rango_def offset_en_rango_def
        mes_en_rango_def anio_en_rango_def peticion_def)
  have p1: "parametros_de ?r1 = \<lparr>mes = Some (Finite 3), anio = Some (Finite 2024),
              limit = Finite (of_nat 100), offset = Finite (of_nat 0)\<rparr>"
    and p2: "parametros_de ?r2 = \<lparr>mes = None, anio = None,
              limit = Finite (of_nat 100), offset = Finite (of_nat 5)\<rparr>"
    by (simp_all add: parametros_de_def peticion_def MAXIMA_CANTIDAD_EVENTOS_def)
  have i1: "RDP03_INSTANCE ?r1 = None" and i2: "RDP03_INSTANCE ?r2 = None"
    by (simp_all add: peticion_def)
  have b1: "snd (buscarEventos host_utc (mongo []) (parametros_de ?r1) (RDP03_INSTANCE ?r1)) =
            Inr \<lparr>eventos = [], total = Finite 0\<rparr>"
    unfolding p1 i1 by (subst buscarEventos_mongo) simp_all
  have len: "length (coleccion 3) = 3" by (simp add: coleccion_def)
  have b2: "snd (buscarEventos host_utc (mongo (coleccion 3)) (parametros_de ?r2) (RDP03_INSTANCE ?r2)) =
            Inr \<lparr>eventos = [], total = Finite 3\<rparr>"
    unfolding p2 i2 by (subst buscarEventos_mongo) (simp_all add: filtroComun_def len)
  obtain e1 where e1: "buscarEventos host_utc (mongo []) (parametros_de ?r1) (RDP03_INSTANCE ?r1) =
      (e1, Inr \<lparr>eventos = [], total = Finite 0\<rparr>)"
    using b1 by (cases "buscarEventos host_utc (mongo []) (parametros_de ?r1) (RDP03_INSTANCE ?r1)") simp
  obtain e2 where e2: "buscarEventos host_utc (mongo (coleccion 3)) (parametros_de ?r2) (RDP03_INSTANCE ?r2) =
      (e2, Inr \<lparr>eventos = [], total = Finite 3\<rparr>)"
    using b2 by (cases "buscarEventos host_utc (mongo (coleccion 3)) (parametros_de ?r2) (RDP03_INSTANCE ?r2)") simp
  have m1: "Mes ?r1 = Some (Finite 3)" "Anio ?r1 = Some (Finite 2024)"
    and m2: "Mes ?r2 = None" by (simp_all add: peticion_def)
  show ?thesis
    using sin_eventos_responde_404 [OF v1 e1] sin_eventos_responde_404 [OF v2 e2] v1 b2
    by (simp add: m1 m2 del_anio_def i2)
qed



lemma pagina_por_indices:
  assumes "k + l \<le> length xs"
  shows "take l (drop k xs) = map (nth xs) [k..<k + l]"
proof (rule nth_equalityI)
  show "length (take l (drop k xs)) = length (map (nth xs) [k..<k + l])"
    using assms by simp
next
  fix j
  assume "j < length (take l (drop k xs))"
  then have "j < l" by simp
  then show "take l (drop k xs) ! j = map (nth xs) [k..<k + l] ! j"
    using assms by simp
qed


lemma coleccion_en_orden: "sort_key doc_Fecha_Inicio (coleccion n) = coleccion n"
proof -
  have "map doc_Fecha_Inicio (coleccion n) = map int [0..<n]"
    by (simp add: coleccion_def documento_n_def)
  moreover have "sorted (map int [0..<n])"
    by (simp add: sorted_map sorted_wrt_iff_nth_less)
  ultimately show ?thesis
    by (simp add: sort_key_id_if_sorted)
qed


lemma pagina_de_coleccion:
  assumes "k + l \<le> n"
  shows "take l (drop k (coleccion n)) = map documento_n [k..<k + l]"
proof -
  have "take l (drop k (coleccion n)) = map (nth (coleccion n)) [k..<k + l]"
    using assms by (intro pagina_por_indices) (simp add: coleccion_def)
  also have "\<dots> = map documento_n [k..<k + l]"
    using assms by (simp add: coleccion_def)
  finally show ?thesis .
qed


text \<open>
  Claim C7. Without a month the filter of both operations is the empty document, whatever
  the year; every stored event matches it, and on the executor in memory the result is
  the page of the whole collection in order of Fecha_Inicio, with total the size of the
  collection.
\<close>

theorem sin_mes_sin_filtro:
  "filter_doc (operacion_conteo h \<lparr>mes = None, anio = a, limit = l, offset = k\<rparr>) = Vacio
   \<and> filter_doc (operacion_busqueda h \<lparr>mes = None, anio = a, limit = l, offset = k\<rparr>) = Vacio
   \<and> coincide Vacio d
   \<and> filter (coincide Vacio) db = db
   \<and> (0 < n \<longrightarrow>
        snd (buscarEventos h (mongo db)
               \<lparr>mes = None, anio = a, limit = Finite (of_nat n), offset = Finite (of_nat j)\<rparr> i) =
          Inr \<lparr>eventos = map evento_de (take n (drop j (sort_key doc_Fecha_Inicio db))),
               total = Finite (of_nat (length db))\<rparr>)"
proof -
  have "snd (buscarEventos h (mongo db)
               \<lparr>mes = None, anio = a, limit = Finite (of_nat n), offset = Finite (of_nat j)\<rparr> i) =
          Inr \<lparr>eventos = map evento_de (take n (drop j (sort_key doc_Fecha_Inicio db))),
               total = Finite (of_nat (length db))\<rparr>" if "0 < n"
    by (simp add: buscarEventos_mongo [OF that] filtroComun_def)
  then show ?thesis
    by (simp add: operacion_conteo_def operacion_busqueda_def filtroComun_def)
qed

text \<open>Three stored events, limit 2, offset 1: the second and third events, total 3.\<close>

theorem sin_mes_sin_filtro_witness:
  "snd (buscarEventos host_utc (mongo (coleccion 3))
         \<lparr>mes = None, anio = None, limit = Finite 2, offset = Finite 1\<rparr> None) =
     Inr \<lparr>eventos = [evento_de (documento_n 1), evento_de (documento_n 2)], total = Finite 3\<rparr>"
proof -
  have "length (coleccion 3) = 3" by (simp add: coleccion_def)
  then show ?thesis
    using sin_mes_sin_filtro [where h = host_utc and db = "coleccion 3" and a = None
        and i = None and n = 2 and j = 1] pagina_de_coleccion [of 1 2 3]
    by (simp add: coleccion_en_orden documento_n_def)
qed

text \<open>
  Claim C9. With a year and no month the unified search does what it does with neither:
  the same filter (the empty one), the same two operations, the same effects and the same
  result, for every executor. At the endpoint a request without month whose parameters
  validate gets the response of the same request without the year.
\<close>

theorem anio_sin_mes_no_influye:
  "buscarEventos h c \<lparr>mes = None, anio = Some y, limit = l, offset = k\<rparr> i =
     buscarEventos h c \<lparr>mes = None, anio = None, limit = l, offset = k\<rparr> i
   \<and> filtroComun h None (Some y) = Vacio
   \<and> operacion_conteo h \<lparr>mes = None, anio = Some y, limit = l, offset = k\<rparr> =
       operacion_conteo h \<lparr>mes = None, anio = None, limit = l, offset = k\<rparr>
   \<and> operacion_busqueda h \<lparr>mes = None, anio = Some y, limit = l, offset = k\<rparr> =
       operacion_busqueda h \<lparr>mes = None, anio = None, limit = l, offset = k\<rparr>
   \<and> (Mes req = None \<and> parametros_validos req \<longrightarrow>
        snd (EventosRouter_get h c req) = snd (EventosRouter_get h c (req\<lparr>Anio := None\<rparr>)))"
proof -
  have ops: "operacion_conteo h \<lparr>mes = None, anio = Some y, limit = l, offset = k\<rparr> =
       operacion_conteo h \<lparr>mes = None, anio = None, limit = l, offset = k\<rparr>"
    "operacion_busqueda h \<lparr>mes = None, anio = Some y, limit = l, offset = k\<rparr> =
       operacion_busqueda h \<lparr>mes = None, anio = None, limit = l, offset = k\<rparr>"
    by (simp_all add: operacion_conteo_def operacion_busqueda_def filtroComun_def)
  have b: "buscarEventos h c \<lparr>mes = None, anio = y', limit = l', offset = k'\<rparr> i' =
     buscarEventos h c \<lparr>mes = None, anio = None, limit = l', offset = k'\<rparr> i'" for y' l' k' i'
    by (simp add: buscarEventos_def operacion_conteo_def operacion_busqueda_def filtroComun_def)
  have r: "EventosRouter_get h c req = EventosRouter_get h c (req\<lparr>Anio := None\<rparr>)"
    if m: "Mes req = None" and v: "parametros_validos req"
  proof -
    have v': "parametros_validos (req\<lparr>Anio := None\<rparr>)"
      using v by (simp add: parametros_validos_def limite_en_rango_def offset_en_rango_def
          mes_en_rango_def anio_en_rango_def)
    have "buscarEventos h c (parametros_de req) (RDP03_INSTANCE req) =
          buscarEventos h c (parametros_de (req\<lparr>Anio := None\<rparr>)) (RDP03_INSTANCE req)"
      using m b [of "Anio req"] by (simp add: parametros_de_def)
    then show ?thesis
      unfolding EventosRouter_get_valido [OF v] EventosRouter_get_valido [OF v']
      using m by (simp split: prod.splits sum.splits)
  qed
  show ?thesis
    using ops b r by (simp add: filtroComun_def)
qed

text \<open>The request with year 2024 and no month is answered as the request with neither.\<close>

theorem anio_sin_mes_no_influye_witness:
  "Mes (peticion None None None (Some (Finite 2024))) = None
   \<and> parametros_validos (peticion None None None (Some (Finite 2024)))
   \<and> snd (EventosRouter_get host_utc (mongo (coleccion 3))
            (peticion None None None (Some (Finite 2024)))) =
       snd (EventosRouter_get host_utc (mongo (coleccion 3)) (peticion None None None None))"
  using anio_sin_mes_no_influye [where req = "peticion None None None (Some (Finite 2024))"
      and h = host_utc and c = "mongo (coleccion 3)"]
  by (simp add: peticion_def parametros_validos_def limite_en_rango_def offset_en_rango_def
      mes_en_rango_def anio_en_rango_def)

section \<open>Errors and null results\<close>

text \<open>
  Claim C8. When the executor throws on an operation, the query function that issued it
  writes the error to the console and throws the same error: nothing is issued after the
  failing operation, and a count that had succeeded is not returned. When buscarEventos
  throws, the handler writes the error to the console and answers 500 with success false,
  the error type UNKNOWN_ERROR and the error in \<open>details\<close>.
\<close>

theorem errores_se_relanzan:
  "(execute_number c i (operacion_conteo h p) Responsable = Inl e \<longrightarrow>
      buscarEventos h c p i =
        ([Executed i (operacion_conteo h p) Responsable,
          ConsoleError ''Error buscando eventos:'' e], Inl e))
   \<and> (execute_number c i (operacion_conteo h p) Responsable = Inr t
       \<and> execute_any c i (operacion_busqueda h p) Responsable = Inl e \<longrightarrow>
      buscarEventos h c p i =
        ([Executed i (operacion_conteo h p) Responsable,
          Executed i (operacion_busqueda h p) Responsable,
          ConsoleError ''Error buscando eventos:'' e], Inl e))
   \<and> (execute_number c i (por_mes_conteo h m a) Responsable = Inl e \<longrightarrow>
      buscarEventosPorMes h c m a i l k =
        ([Executed i (por_mes_conteo h m a) Responsable,
          ConsoleError ''Error buscando eventos por mes:'' e], Inl e))
   \<and> (execute_number c i (por_mes_conteo h m a) Responsable = Inr t
       \<and> execute_eventos c i (por_mes_busqueda h m a l k) Responsable = Inl e \<longrightarrow>
      buscarEventosPorMes h c m a i l k =
        ([Executed i (por_mes_conteo h m a) Responsable,
          Executed i (por_mes_busqueda h m a l k) Responsable,
          ConsoleError ''Error buscando eventos por mes:'' e], Inl e))
   \<and> (execute_eventos c i (por_anio_busqueda h y) Directivo = Inl e \<longrightarrow>
      buscarEventosPorAnio h c y i =
        ([Executed i (por_anio_busqueda h y) Directivo,
          ConsoleError ''Error buscando eventos por anio:'' e], Inl e))
   \<and> (execute_eventos c i (por_rango_busqueda fechaInicio fechaFin) Directivo = Inl e \<longrightarrow>
      buscarEventosPorRango c fechaInicio fechaFin i =
        ([Executed i (por_rango_busqueda fechaInicio fechaFin) Directivo,
          ConsoleError ''Error buscando eventos por rango:'' e], Inl e))
   \<and> (execute_evento c i (por_id_busqueda idEvento) Responsable = Inl e \<longrightarrow>
      buscarEventoPorId c idEvento i =
        ([Executed i (por_id_busqueda idEvento) Responsable,
          ConsoleError ''Error buscando evento por ID:'' e], Inl e))
   \<and> (execute_number c i (contar_mes_conteo h m a) Responsable = Inl e \<longrightarrow>
      contarEventosPorMes h c m a i =
        ([Executed i (contar_mes_conteo h m a) Responsable,
          ConsoleError ''Error contando eventos por mes:'' e], Inl e))
   \<and> (parametros_validos req
       \<and> buscarEventos h c (parametros_de req) (RDP03_INSTANCE req) = (efectos, Inl e) \<longrightarrow>
      EventosRouter_get h c req =
        (ConsoleLog ''Parametros recibidos:'' # efectos
           @ [ConsoleError ''Error al buscar eventos:'' e],
         \<lparr>status = 500,
          json = ErrorResponseAPIBase False Error_interno_del_servidor UNKNOWN_ERROR (Some e)\<rparr>))"
proof -
  have 1: "execute_number c i (operacion_conteo h p) Responsable = Inl e \<longrightarrow>
      buscarEventos h c p i =
        ([Executed i (operacion_conteo h p) Responsable,
          ConsoleError ''Error buscando eventos:'' e], Inl e)"
    by (simp add: buscarEventos_def)
  have 2: "execute_number c i (operacion_conteo h p) Responsable = Inr t
       \<and> execute_any c i (operacion_busqueda h p) Responsable = Inl e \<longrightarrow>
      buscarEventos h c p i =
        ([Executed i (operacion_conteo h p) Responsable,
          Executed i (operacion_busqueda h p) Responsable,
          ConsoleError ''Error buscando eventos:'' e], Inl e)"
    by (simp add: buscarEventos_def)
  have 3: "execute_number c i (por_mes_conteo h m a) Responsable = Inl e \<longrightarrow>
      buscarEventosPorMes h c m a i l k =
        ([Executed i (por_mes_conteo h m a) Responsable,
          ConsoleError ''Error buscando eventos por mes:'' e], Inl e)"
    by (simp add: buscarEventosPorMes_def)
  have 4: "execute_number c i (por_mes_conteo h m a) Responsable = Inr t
       \<and> execute_eventos c i (por_mes_busqueda h m a l k) Responsable = Inl e \<longrightarrow>
      buscarEventosPorMes h c m a i l k =
        ([Executed i (por_mes_conteo h m a) Responsable,
          Executed i (por_mes_busqueda h m a l k) Responsable,
          ConsoleError ''Error buscando eventos por mes:'' e], Inl e)"
    by (simp add: buscarEventosPorMes_def)
  have 5: "execute_eventos c i (por_anio_busqueda h y) Directivo = Inl e \<longrightarrow>
      buscarEventosPorAnio h c y i =
        ([Executed i (por_anio_busqueda h y) Directivo,
          ConsoleError ''Error buscando eventos por anio:'' e], Inl e)"
    by (simp add: buscarEventosPorAnio_def)
  have 6: "execute_eventos c i (por_rango_busqueda fechaInicio fechaFin) Directivo = Inl e \<longrightarrow>
      buscarEventosPorRango c fechaInicio fechaFin i =
        ([Executed i (por_rango_busqueda fechaInicio fechaFin) Directivo,
          ConsoleError ''Error buscando eventos por rango:'' e], Inl e)"
    by (simp add: buscarEventosPorRango_def)
  have 7: "execute_evento c i (por_id_busqueda idEvento) Responsable = Inl e \<longrightarrow>
      buscarEventoPorId c idEvento i =
        ([Executed i (por_id_busqueda idEvento) Responsable,
          ConsoleError ''Error buscando evento por ID:'' e], Inl e)"
    by (simp add: buscarEventoPorId_def)
  have 8: "execute_number c i (contar_mes_conteo h m a) Responsable = Inl e \<longrightarrow>
      contarEventosPorMes h c m a i =
        ([Executed i (contar_mes_conteo h m a) Responsable,
          ConsoleError ''Error contando eventos por mes:'' e], Inl e)"
    by (simp add: contarEventosPorMes_def)
  have 9: "parametros_validos req
       \<and> buscarEventos h c (parametros_de req) (RDP03_INSTANCE req) = (efectos, Inl e) \<longrightarrow>
      EventosRouter_get h c req =
        (ConsoleLog ''Parametros recibidos:'' # efectos
           @ [ConsoleError ''Error al buscar eventos:'' e],
         \<lparr>status = 500,
          json = ErrorResponseAPIBase False Error_interno_del_servidor UNKNOWN_ERROR (Some e)\<rparr>)"
    by (simp add: EventosRouter_get_valido)
  from 1 2 3 4 5 6 7 8 9 show ?thesis by blast
qed

text \<open>
  An executor that throws on every operation, and one whose count succeeds and whose find
  throws: each query function throws what the executor threw, and the endpoint answers 500.
\<close>

theorem errores_se_relanzan_witness:
  "snd (buscarEventos host_utc (conector_caido (Error ''ECONNRESET''))
          (parametros_de (peticion None None None None)) None) = Inl (Error ''ECONNRESET'')
   \<and> snd (buscarEventos host_utc
          ((mongo [])\<lparr>execute_any := (\<lambda>instancia op rol. Inl (Error ''ETIMEDOUT''))\<rparr>)
          (parametros_de (peticion None None None None)) None) = Inl (Error ''ETIMEDOUT'')
   \<and> snd (buscarEventosPorMes host_utc (conector_caido (Error ''ECONNRESET'')) (Finite 3) None
          None None None) = Inl (Error ''ECONNRESET'')
   \<and> snd (buscarEventosPorAnio host_utc (conector_caido (Error ''ECONNRESET'')) (Finite 2024)
          None) = Inl (Error ''ECONNRESET'')
   \<and> snd (buscarEventosPorRango (conector_caido (Error ''ECONNRESET'')) (TimeValue 0)
          (TimeValue 10) None) = Inl (Error ''ECONNRESET'')
   \<and> snd (buscarEventoPorId (conector_caido (Error ''ECONNRESET'')) (Finite 7) None) =
       Inl (Error ''ECONNRESET'')
   \<and> snd (contarEventosPorMes host_utc (conector_caido (Error ''ECONNRESET'')) (Finite 3) None
          None) = Inl (Error ''ECONNRESET'')
   \<and> snd (EventosRouter_get host_utc (conector_caido (Error ''ECONNRESET''))
          (peticion None None None None)) =
       \<lparr>status = 500,
        json = ErrorResponseAPIBase False Error_interno_del_servidor UNKNOWN_ERROR
                 (Some (Error ''ECONNRESET''))\<rparr>"
proof -
  let ?c = "conector_caido (Error ''ECONNRESET'')"
  let ?c2 = "(mongo [])\<lparr>execute_any := (\<lambda>instancia op rol. Inl (Error ''ETIMEDOUT''))\<rparr>"
  let ?r = "peticion None None None None"
  have v: "parametros_validos ?r"
    by (simp add: parametros_validos_def limite_en_rango_def offset_en_rango_def
        mes_en_rango_def anio_en_rango_def peticion_def)
  have i: "RDP03_INSTANCE ?r = None" by (simp add: peticion_def)
  note t1 = errores_se_relanzan [where c = ?c and e = "Error ''ECONNRESET''" and h = host_utc
      and i = None and p = "parametros_de ?r" and m = "Finite 3" and a = None and l = None
      and k = None and y = "Finite 2024" and fechaInicio = "TimeValue 0"
      and fechaFin = "TimeValue 10" and idEvento = "Finite 7" and req = ?r
      and t = None
      and efectos = "[Executed None (operacion_conteo host_utc (parametros_de ?r)) Responsable,
          ConsoleError ''Error buscando eventos:'' (Error ''ECONNRESET'')]"]
  note t2 = errores_se_relanzan [where c = ?c2 and e = "Error ''ETIMEDOUT''" and h = host_utc
      and i = None and p = "parametros_de ?r" and m = "Finite 3" and a = None and l = None
      and k = None and y = "Finite 2024" and fechaInicio = "TimeValue 0"
      and fechaFin = "TimeValue 10" and idEvento = "Finite 7" and req = ?r
      and t = "Some (contar [] (operacion_conteo host_utc (parametros_de ?r)))"
      and efectos = "[]"]
  show ?thesis
    using t1 t2 v by (simp add: conector_caido_def mongo_def i)
qed

lemma transformar_con_id:
  "\<forall>r \<in> set raws. raw_id r \<noteq> None \<Longrightarrow>
   transformar raws =
     Inr (map (\<lambda>r. \<lparr>Id_Evento = IdString (toString (the (raw_id r))),
                      Nombre = raw_Nombre r,
                      Fecha_Inicio = raw_Fecha_Inicio r,
                      Fecha_Conclusion = raw_Fecha_Conclusion r\<rparr>) raws)"
  by (induction raws) auto

text \<open>
  Claim C10, as amended. For the query functions that return a list of events or a count
  (buscarEventos, buscarEventosPorMes, buscarEventosPorAnio, buscarEventosPorRango,
  contarEventosPorMes): when the executor completes with a null result, the events are the
  empty list and the total or count is 0 (as it is for a count of 0 or NaN; any other count
  is returned as it is). An event of the unified search has the four fields Id_Evento (the
  text of \<open>_id\<close>), Nombre, Fecha_Inicio and Fecha_Conclusion of the raw element it comes
  from. buscarEventoPorId returns what the executor yields, null included.
\<close>

theorem resultados_nulos:
  "(execute_number c i (operacion_conteo h p) Responsable = Inr t
      \<and> execute_any c i (operacion_busqueda h p) Responsable = Inr None \<longrightarrow>
      snd (buscarEventos h c p i) = Inr \<lparr>eventos = [], total = o_cero t\<rparr>)
   \<and> (execute_number c i (operacion_conteo h p) Responsable = Inr t
      \<and> execute_any c i (operacion_busqueda h p) Responsable = Inr (Some raws)
      \<and> (\<forall>r \<in> set raws. raw_id r \<noteq> None) \<longrightarrow>
      snd (buscarEventos h c p i) =
        Inr \<lparr>eventos = map (\<lambda>r. \<lparr>Id_Evento = IdString (toString (the (raw_id r))),
                                   Nombre = raw_Nombre r,
                                   Fecha_Inicio = raw_Fecha_Inicio r,
                                   Fecha_Conclusion = raw_Fecha_Conclusion r\<rparr>) raws,
             total = o_cero t\<rparr>)
   \<and> o_cero None = Finite 0
   \<and> o_cero (Some (Finite 0)) = Finite 0
   \<and> o_cero (Some NaN) = Finite 0
   \<and> (truthy n \<longrightarrow> o_cero (Some n) = n)
   \<and> (execute_number c i (por_mes_conteo h m a) Responsable = Inr t
      \<and> execute_eventos c i (por_mes_busqueda h m a l k) Responsable = Inr evs \<longrightarrow>
      snd (buscarEventosPorMes h c m a i l k) =
        Inr \<lparr>eventos = (case evs of None \<Rightarrow> [] | Some es \<Rightarrow> es), total = o_cero t\<rparr>)
   \<and> (execute_eventos c i (por_anio_busqueda h y) Directivo = Inr evs \<longrightarrow>
      snd (buscarEventosPorAnio h c y i) = Inr (case evs of None \<Rightarrow> [] | Some es \<Rightarrow> es))
   \<and> (execute_eventos c i (por_rango_busqueda fechaInicio fechaFin) Directivo = Inr evs \<longrightarrow>
      snd (buscarEventosPorRango c fechaInicio fechaFin i) =
        Inr (case evs of None \<Rightarrow> [] | Some es \<Rightarrow> es))
   \<and> (execute_number c i (contar_mes_conteo h m a) Responsable = Inr t \<longrightarrow>
      snd (contarEventosPorMes h c m a i) = Inr (o_cero t))
   \<and> (execute_evento c i (por_id_busqueda idEvento) Responsable = Inr ev \<longrightarrow>
      snd (buscarEventoPorId c idEvento i) = Inr ev)"
proof -
  have 1: "execute_number c i (operacion_conteo h p) Responsable = Inr t
      \<and> execute_any c i (operacion_busqueda h p) Responsable = Inr None \<longrightarrow>
      snd (buscarEventos h c p i) = Inr \<lparr>eventos = [], total = o_cero t\<rparr>"
    by (simp add: buscarEventos_def o_vacio_def)
  have 2: "execute_number c i (operacion_conteo h p) Responsable = Inr t
      \<and> execute_any c i (operacion_busqueda h p) Responsable = Inr (Some raws)
      \<and> (\<forall>r \<in> set raws. raw_id r \<noteq> None) \<longrightarrow>
      snd (buscarEventos h c p i) =
        Inr \<lparr>eventos = map (\<lambda>r. \<lparr>Id_Evento = IdString (toString (the (raw_id r))),
                                   Nombre = raw_Nombre r,
                                   Fecha_Inicio = raw_Fecha_Inicio r,
                                   Fecha_Conclusion = raw_Fecha_Conclusion r\<rparr>) raws,
             total = o_cero t\<rparr>"
    by (simp add: buscarEventos_def o_vacio_def transformar_con_id)
  have 3: "o_cero None = Finite 0" "o_cero (Some (Finite 0)) = Finite 0"
    "o_cero (Some NaN) = Finite 0" "truthy n \<longrightarrow> o_cero (Some n) = n"
    by (simp_all add: o_cero_def)
  have 4: "execute_number c i (por_mes_conteo h m a) Responsable = Inr t
      \<and> execute_eventos c i (por_mes_busqueda h m a l k) Responsable = Inr evs \<longrightarrow>
      snd (buscarEventosPorMes h c m a i l k) =
        Inr \<lparr>eventos = (case evs of None \<Rightarrow> [] | Some es \<Rightarrow> es), total = o_cero t\<rparr>"
    by (simp add: buscarEventosPorMes_def o_vacio_def)
  have 5: "execute_eventos c i (por_anio_busqueda h y) Directivo = Inr evs \<longrightarrow>
      snd (buscarEventosPorAnio h c y i) = Inr (case evs of None \<Rightarrow> [] | Some es \<Rightarrow> es)"
    by (simp add: buscarEventosPorAnio_def o_vacio_def)
  have 6: "execute_eventos c i (por_rango_busqueda fechaInicio fechaFin) Directivo = Inr evs \<longrightarrow>
      snd (buscarEventosPorRango c fechaInicio fechaFin i) =
        Inr (case evs of None \<Rightarrow> [] | Some es \<Rightarrow> es)"
    by (simp add: buscarEventosPorRango_def o_vacio_def)
  have 7: "execute_number c i (contar_mes_conteo h m a) Responsable = Inr t \<longrightarrow>
      snd (contarEventosPorMes h c m a i) = Inr (o_cero t)"
    by (simp add: contarEventosPorMes_def)
  have 8: "execute_evento c i (por_id_busqueda idEvento) Responsable = Inr ev \<longrightarrow>
      snd (buscarEventoPorId c idEvento i) = Inr ev"
    by (simp add: buscarEventoPorId_def)
  from 1 2 3 4 5 6 7 8 show ?thesis by blast
qed

text \<open>
  An executor that yields null on every operation, and the unified search over one stored
  event.
\<close>

theorem resultados_nulos_witness:
  "snd (buscarEventos host_utc conector_nulo (parametros_de (peticion None None None None)) None) =
     Inr \<lparr>eventos = [], total = Finite 0\<rparr>
   \<and> snd (buscarEventos host_utc (mongo [documento_0_10])
           (parametros_de (peticion None None None None)) None) =
     Inr \<lparr>eventos = [\<lparr>Id_Evento = IdString ''65f0c0ffee0000000000000a'', Nombre = ''Aniversario'',
                       Fecha_Inicio = TimeValue 0, Fecha_Conclusion = TimeValue 10\<rparr>],
          total = Finite 1\<rparr>
   \<and> snd (buscarEventosPorMes host_utc conector_nulo (Finite 3) None None None None) =
     Inr \<lparr>eventos = [], total = Finite 0\<rparr>
   \<and> snd (buscarEventosPorAnio host_utc conector_nulo (Finite 2024) None) = Inr []
   \<and> snd (buscarEventosPorRango conector_nulo (TimeValue 0) (TimeValue 10) None) = Inr []
   \<and> snd (contarEventosPorMes host_utc conector_nulo (Finite 3) None None) = Inr (Finite 0)"
proof -
  let ?p = "parametros_de (peticion None None None None)"
  let ?raw = "\<lparr>raw_id = Some (ObjectId ''65f0c0ffee0000000000000a''), raw_Nombre = ''Aniversario'',
               raw_Fecha_Inicio = TimeValue 0, raw_Fecha_Conclusion = TimeValue 10\<rparr>"
  have p: "?p = \<lparr>mes = None, anio = None, limit = Finite 100, offset = Finite 0\<rparr>"
    by (simp add: parametros_de_def peticion_def MAXIMA_CANTIDAD_EVENTOS_def)
  have n: "execute_number (mongo [documento_0_10]) None (operacion_conteo host_utc ?p) Responsable =
      Inr (Some (Finite 1))"
    by (simp add: mongo_def contar_def operacion_conteo_def filtroComun_def p)
  have f: "execute_any (mongo [documento_0_10]) None (operacion_busqueda host_utc ?p) Responsable =
      Inr (Some [?raw])"
    by (simp add: mongo_def encontrar_def operacion_busqueda_def filtroComun_def p ventana_def
        ordenar_def como_natural_def proyeccion_de_def leer_raw_def documento_0_10_def)
  note t1 = resultados_nulos [where c = conector_nulo and h = host_utc and i = None and p = ?p
      and t = None and raws = "[]" and n = "Finite 1" and m = "Finite 3" and a = None
      and l = None and k = None and evs = None and y = "Finite 2024"
      and fechaInicio = "TimeValue 0" and fechaFin = "TimeValue 10" and idEvento = "Finite 7"
      and ev = None]
  note t2 = resultados_nulos [where c = "mongo [documento_0_10]" and h = host_utc and i = None
      and p = ?p and t = "Some (Finite 1)" and raws = "[?raw]" and n = "Finite 1"
      and m = "Finite 3" and a = None and l = None and k = None and evs = None
      and y = "Finite 2024" and fechaInicio = "TimeValue 0" and fechaFin = "TimeValue 10"
      and idEvento = "Finite 7" and ev = None]
  show ?thesis
    using t1 t2 n f by (simp add: conector_nulo_def o_cero_def)
qed

text \<open>
  Claim C10 as stated, for every query function, fails for buscarEventoPorId: when the
  executor yields null, as it does when no event has the identifier, the function returns
  null.
\<close>

theorem busqueda_por_id_nula_counterexample:
  "execute_evento conector_nulo None (por_id_busqueda (Finite 7)) Responsable = Inr None
   \<and> snd (buscarEventoPorId conector_nulo (Finite 7) None) = Inr None
   \<and> snd (buscarEventoPorId (mongo []) (Finite 7) None) = Inr None"
  by (simp add: buscarEventoPorId_def conector_nulo_def mongo_def)

end
